theory Spec2Isabelle
  imports Main "HOL-Library.AList"
begin

section \<open>Values of the notify engine\<close>

text \<open>
  The subscription engine of \<^verbatim>\<open>src/src/notify.ts\<close>. Platforms are the two literals
  \<^verbatim>\<open>'mr' | 'cf'\<close>. A JavaScript number is a finite value (milliseconds, kept as an
  integer), \<^verbatim>\<open>NaN\<close> or one of the two infinities; comparisons and
  \<^verbatim>\<open>Math.max\<close> follow IEEE 754 on these. A JavaScript string is the list of its
  UTF-16 code units; \<^verbatim>\<open>str\<close> gives the string of an ASCII literal, so
  \<^verbatim>\<open>abc\<close> followed by a no-break space is written \<^verbatim>\<open>str ''abc'' @ [0xA0]\<close>.
  \<^verbatim>\<open>===\<close> on strings is equality of the lists.
\<close>

datatype platform = MR | CF

type_synonym jsstring = "nat list"

definition str :: "string \<Rightarrow> jsstring" where
  "str s = map of_char s"

datatype jsnum = Fin int | NaN | PosInf | NegInf

text \<open>Truthiness of a number: \<^verbatim>\<open>0\<close> and \<^verbatim>\<open>NaN\<close> are falsy.\<close>

fun truthyNum :: "jsnum \<Rightarrow> bool" where
  "truthyNum (Fin n) = (n \<noteq> 0)"
| "truthyNum NaN = False"
| "truthyNum PosInf = True"
| "truthyNum NegInf = True"

text \<open>\<^verbatim>\<open>a || b\<close> on numbers.\<close>

definition orNum :: "jsnum \<Rightarrow> jsnum \<Rightarrow> jsnum" where
  "orNum a b = (if truthyNum a then a else b)"

text \<open>
  A field that should hold a number, as it stands in memory or in a parsed file: unset
  (\<^verbatim>\<open>undefined\<close>), \<^verbatim>\<open>null\<close> or a number. \<^verbatim>\<open>Number(x)\<close> reads
  \<^verbatim>\<open>undefined\<close> as \<^verbatim>\<open>NaN\<close> and \<^verbatim>\<open>null\<close> as \<^verbatim>\<open>0\<close>.
\<close>

datatype stored_num = Unset | Null | Num jsnum

fun toNumber :: "stored_num \<Rightarrow> jsnum" where
  "toNumber Unset = NaN"
| "toNumber Null = Fin 0"
| "toNumber (Num n) = n"

fun isFinite :: "jsnum \<Rightarrow> bool" where
  "isFinite (Fin n) = True"
| "isFinite NaN = False"
| "isFinite PosInf = False"
| "isFinite NegInf = False"

text \<open>\<^verbatim>\<open>a <= b\<close> and \<^verbatim>\<open>a < b\<close>: false as soon as one side is \<^verbatim>\<open>NaN\<close>.\<close>

fun numLe :: "jsnum \<Rightarrow> jsnum \<Rightarrow> bool" where
  "numLe (Fin a) (Fin b) = (a \<le> b)"
| "numLe (Fin a) PosInf = True"
| "numLe (Fin a) NegInf = False"
| "numLe (Fin a) NaN = False"
| "numLe PosInf PosInf = True"
| "numLe PosInf (Fin b) = False"
| "numLe PosInf NegInf = False"
| "numLe PosInf NaN = False"
| "numLe NegInf NaN = False"
| "numLe NegInf (Fin b) = True"
| "numLe NegInf PosInf = True"
| "numLe NegInf NegInf = True"
| "numLe NaN b = False"

fun numLt :: "jsnum \<Rightarrow> jsnum \<Rightarrow> bool" where
  "numLt (Fin a) (Fin b) = (a < b)"
| "numLt (Fin a) PosInf = True"
| "numLt (Fin a) NegInf = False"
| "numLt (Fin a) NaN = False"
| "numLt PosInf b = False"
| "numLt NegInf NaN = False"
| "numLt NegInf (Fin b) = True"
| "numLt NegInf PosInf = True"
| "numLt NegInf NegInf = False"
| "numLt NaN b = False"

text \<open>\<^verbatim>\<open>Math.max(a, b)\<close>: \<^verbatim>\<open>NaN\<close> if either argument is.\<close>

fun mathMax :: "jsnum \<Rightarrow> jsnum \<Rightarrow> jsnum" where
  "mathMax NaN b = NaN"
| "mathMax (Fin a) NaN = NaN"
| "mathMax PosInf NaN = NaN"
| "mathMax NegInf NaN = NaN"
| "mathMax (Fin a) (Fin b) = Fin (max a b)"
| "mathMax (Fin a) PosInf = PosInf"
| "mathMax (Fin a) NegInf = Fin a"
| "mathMax PosInf (Fin b) = PosInf"
| "mathMax PosInf PosInf = PosInf"
| "mathMax PosInf NegInf = PosInf"
| "mathMax NegInf (Fin b) = Fin b"
| "mathMax NegInf PosInf = PosInf"
| "mathMax NegInf NegInf = NegInf"

text \<open>
  \<^verbatim>\<open>function normalizePlatform(platform)\<close>: the two literals pass, everything else is
  \<^verbatim>\<open>null\<close>.
\<close>

definition normalizePlatform :: "jsstring \<Rightarrow> platform option" where
  "normalizePlatform p = (if p = (str ''mr'') then Some MR else if p = (str ''cf'') then Some CF else None)"

text \<open>The literal a platform key prints as inside template strings.\<close>

fun platformStr :: "platform \<Rightarrow> jsstring" where
  "platformStr MR = (str ''mr'')"
| "platformStr CF = (str ''cf'')"

text \<open>
  \<^verbatim>\<open>String.prototype.trim\<close> strips white space and line terminators from both
  ends. White space is tab, vertical tab, form feed, the byte order mark
  \<^verbatim>\<open>U+FEFF\<close> and the space separators \<^verbatim>\<open>U+0020\<close>, \<^verbatim>\<open>U+00A0\<close>,
  \<^verbatim>\<open>U+1680\<close>, \<^verbatim>\<open>U+2000\<close> to \<^verbatim>\<open>U+200A\<close>, \<^verbatim>\<open>U+202F\<close>, \<^verbatim>\<open>U+205F\<close>
  and \<^verbatim>\<open>U+3000\<close>; the line terminators are line feed, carriage return,
  \<^verbatim>\<open>U+2028\<close> and \<^verbatim>\<open>U+2029\<close>. Each is one code unit.
\<close>

definition isWhite :: "nat \<Rightarrow> bool" where
  "isWhite c = (c = 0x09 \<or> c = 0x0A \<or> c = 0x0B \<or> c = 0x0C \<or> c = 0x0D \<or> c = 0x20
                \<or> c = 0xA0 \<or> c = 0x1680 \<or> (0x2000 \<le> c \<and> c \<le> 0x200A)
                \<or> c = 0x2028 \<or> c = 0x2029 \<or> c = 0x202F \<or> c = 0x205F
                \<or> c = 0x3000 \<or> c = 0xFEFF)"

definition trim :: "jsstring \<Rightarrow> jsstring" where
  "trim s = rev (dropWhile isWhite (rev (dropWhile isWhite s)))"

text \<open>
  \<^verbatim>\<open>!!x\<close> and \<^verbatim>\<open>String(x)\<close> for a field that holds a string or is unset
  (\<^verbatim>\<open>undefined\<close>).
\<close>

definition truthyStr :: "jsstring option \<Rightarrow> bool" where
  "truthyStr x = (case x of None \<Rightarrow> False | Some s \<Rightarrow> s \<noteq> [])"

fun stringOf :: "jsstring option \<Rightarrow> jsstring" where
  "stringOf None = str ''undefined''"
| "stringOf (Some s) = s"

section \<open>Configuration store\<close>

text \<open>
  A stored subscription is one element of \<^verbatim>\<open>group.subs\<close>, as the configuration
  file holds it: \<^verbatim>\<open>{ platform, projectId, interval }\<close>. The platform is kept as
  the text it is compared with \<^verbatim>\<open>'mr'\<close> and \<^verbatim>\<open>'cf'\<close> as, the project id as the
  text \<^verbatim>\<open>String(sub?.projectId || '')\<close>; both are empty when the field is unset.
  A channel group is \<^verbatim>\<open>{ channelId, enabled, subs }\<close>; the channel id is a string
  or unset, \<^verbatim>\<open>enabled\<close> is \<^verbatim>\<open>None\<close> when the field is not a boolean. A list
  that is not an array is read as \<^verbatim>\<open>[]\<close> by every \<^verbatim>\<open>Array.isArray\<close> guard of
  the source, so lists are kept as lists.
\<close>

record stored_sub =
  s_platform :: jsstring
  s_projectId :: jsstring
  s_interval :: stored_num

record group =
  g_channelId :: "jsstring option"
  g_enabled :: "bool option"
  g_subs :: "stored_sub list"

text \<open>
  The plugin's \<^verbatim>\<open>config\<close> object: the master switch (unset or a boolean), the
  channel groups and the default interval.
\<close>

record notify_config =
  cfg_enabled :: "bool option"
  cfg_groups :: "group list"
  cfg_interval :: stored_num

text \<open>A normalized subscription, the element type of what \<^verbatim>\<open>getConfigSubs\<close> returns.\<close>

record sub =
  channelId :: jsstring
  platform :: platform
  projectId :: jsstring
  interval :: jsnum

text \<open>
  \<^verbatim>\<open>getConfigSubs(channelId?)\<close>, lines 287-306. The inner loop over the stored
  subscriptions of one group: entries with an unknown platform or an empty trimmed
  project id are passed over, so are entries whose interval is a finite number
  \<^verbatim>\<open><= 0\<close>; the others get
  \<^verbatim>\<open>Math.max(60 * 1000, rawInterval || Number(config.interval) || 30 * 60 * 1000)\<close>.
\<close>

fun getConfigSubs_inner :: "notify_config \<Rightarrow> jsstring \<Rightarrow> stored_sub list \<Rightarrow> sub list" where
  "getConfigSubs_inner cfg cid [] = []"
| "getConfigSubs_inner cfg cid (s # list) =
     (case normalizePlatform (s_platform s) of
        None \<Rightarrow> getConfigSubs_inner cfg cid list
      | Some platformKey \<Rightarrow>
          if trim (s_projectId s) = [] then getConfigSubs_inner cfg cid list
          else if isFinite (toNumber (s_interval s)) \<and> numLe (toNumber (s_interval s)) (Fin 0)
            then getConfigSubs_inner cfg cid list
          else \<lparr> channelId = cid, platform = platformKey, projectId = trim (s_projectId s),
                 interval = mathMax (Fin (60 * 1000))
                   (orNum (orNum (toNumber (s_interval s)) (toNumber (cfg_interval cfg)))
                          (Fin (30 * 60 * 1000))) \<rparr>
               # getConfigSubs_inner cfg cid list)"

text \<open>
  The outer loop over the groups: a group whose channel id is unset or empty
  (\<^verbatim>\<open>!group?.channelId\<close>), a group of another channel when a channel id is given
  (\<^verbatim>\<open>channelId && group.channelId !== channelId\<close>) and a group whose
  \<^verbatim>\<open>enabled\<close> is \<^verbatim>\<open>false\<close> are passed over; the subscriptions of the others
  carry \<^verbatim>\<open>String(group.channelId)\<close>.
\<close>

fun getConfigSubs_outer :: "notify_config \<Rightarrow> jsstring option \<Rightarrow> group list \<Rightarrow> sub list" where
  "getConfigSubs_outer cfg channelIdArg [] = []"
| "getConfigSubs_outer cfg channelIdArg (g # gs) =
     (if \<not> truthyStr (g_channelId g) then getConfigSubs_outer cfg channelIdArg gs
      else if truthyStr channelIdArg \<and> g_channelId g \<noteq> channelIdArg
        then getConfigSubs_outer cfg channelIdArg gs
      else if g_enabled g = Some False then getConfigSubs_outer cfg channelIdArg gs
      else getConfigSubs_inner cfg (stringOf (g_channelId g)) (g_subs g)
           @ getConfigSubs_outer cfg channelIdArg gs)"

definition getConfigSubs :: "notify_config \<Rightarrow> jsstring option \<Rightarrow> sub list" where
  "getConfigSubs cfg channelIdArg = getConfigSubs_outer cfg channelIdArg (cfg_groups cfg)"

text \<open>\<^verbatim>\<open>getConfigSubsOrdered(channelId?)\<close>, lines 308-327, translated on its own.\<close>

fun getConfigSubsOrdered_inner :: "notify_config \<Rightarrow> jsstring \<Rightarrow> stored_sub list \<Rightarrow> sub list" where
  "getConfigSubsOrdered_inner cfg cid [] = []"
| "getConfigSubsOrdered_inner cfg cid (s # list) =
     (case normalizePlatform (s_platform s) of
        None \<Rightarrow> getConfigSubsOrdered_inner cfg cid list
      | Some platformKey \<Rightarrow>
          if trim (s_projectId s) = [] then getConfigSubsOrdered_inner cfg cid list
          else if isFinite (toNumber (s_interval s)) \<and> numLe (toNumber (s_interval s)) (Fin 0)
            then getConfigSubsOrdered_inner cfg cid list
          else \<lparr> channelId = cid, platform = platformKey, projectId = trim (s_projectId s),
                 interval = mathMax (Fin (60 * 1000))
                   (orNum (orNum (toNumber (s_interval s)) (toNumber (cfg_interval cfg)))
                          (Fin (30 * 60 * 1000))) \<rparr>
               # getConfigSubsOrdered_inner cfg cid list)"

fun getConfigSubsOrdered_outer :: "notify_config \<Rightarrow> jsstring option \<Rightarrow> group list \<Rightarrow> sub list" where
  "getConfigSubsOrdered_outer cfg channelIdArg [] = []"
| "getConfigSubsOrdered_outer cfg channelIdArg (g # gs) =
     (if \<not> truthyStr (g_channelId g) then getConfigSubsOrdered_outer cfg channelIdArg gs
      else if truthyStr channelIdArg \<and> g_channelId g \<noteq> channelIdArg
        then getConfigSubsOrdered_outer cfg channelIdArg gs
      else if g_enabled g = Some False then getConfigSubsOrdered_outer cfg channelIdArg gs
      else getConfigSubsOrdered_inner cfg (stringOf (g_channelId g)) (g_subs g)
           @ getConfigSubsOrdered_outer cfg channelIdArg gs)"

definition getConfigSubsOrdered :: "notify_config \<Rightarrow> jsstring option \<Rightarrow> sub list" where
  "getConfigSubsOrdered cfg channelIdArg =
     getConfigSubsOrdered_outer cfg channelIdArg (cfg_groups cfg)"

section \<open>Process state and the two files\<close>

text \<open>
  A version state \<^verbatim>\<open>{ lastVersion?: string }\<close>, the value type of
  \<^verbatim>\<open>stateCache\<close>.
\<close>

record vstate =
  lastVersion :: "jsstring option"

text \<open>
  What \<^verbatim>\<open>fs.readFile\<close> followed by \<^verbatim>\<open>JSON.parse\<close> gives for a file: an
  exception (file missing, text not JSON), a value that fails
  \<^verbatim>\<open>json && typeof json === 'object'\<close>, or an object. The file holds the written
  object as \<^verbatim>\<open>JSON.parse\<close> reads it back from the text of
  \<^verbatim>\<open>JSON.stringify\<close>: the same object, where a number that is not finite has
  become \<^verbatim>\<open>null\<close> and an unset field stays unset. Keys are ordinary property
  names.
\<close>

datatype 'a file_content = Unreadable | NotObject | Object 'a

text \<open>
  The configuration document: \<^verbatim>\<open>doc_enabled\<close> is \<^verbatim>\<open>None\<close> when
  \<^verbatim>\<open>json.enabled\<close> is not a boolean, \<^verbatim>\<open>doc_groups\<close> is \<^verbatim>\<open>None\<close> when
  \<^verbatim>\<open>json.groups\<close> is not an array. The state document maps a key to
  \<^verbatim>\<open>None\<close> when the value stored under it is not an object.
\<close>

record config_doc =
  doc_enabled :: "bool option"
  doc_groups :: "group list option"

type_synonym state_doc = "jsstring \<rightharpoonup> vstate option"

text \<open>
  The latest version record a fetcher returns; \<^verbatim>\<open>version\<close> is the label that is
  compared and stored, the empty string when the platform gave none. A fetch throws
  (transport error, status, timeout), returns \<^verbatim>\<open>null\<close> or returns a record.
\<close>

record latest =
  versionId :: jsstring
  version :: jsstring
  changelog :: jsstring
  downloads :: int
  datePublished :: jsstring
  loaders :: "jsstring list"
  gameVersions :: "jsstring list"
  fileName :: jsstring
  fileSize :: int

datatype fetch_result = FetchThrows | NoRelease | Latest latest

text \<open>One call of \<^verbatim>\<open>sendUpdate\<close>, and the warnings \<^verbatim>\<open>logger.warn\<close> receives.\<close>

record notification =
  n_channelId :: jsstring
  n_platform :: platform
  n_projectId :: jsstring
  n_latest :: latest

datatype warning =
    ConfigWriteFailed
  | StateWriteFailed
  | NotifyFailed platform jsstring
  | CheckFailed platform jsstring

text \<open>
  A call of \<^verbatim>\<open>createState\<close> or \<^verbatim>\<open>updateState\<close> (with the key and the version
  it stores) or of \<^verbatim>\<open>sendUpdate\<close>.
\<close>

datatype call =
    CreateState jsstring jsstring
  | UpdateState jsstring jsstring
  | SendUpdate notification

text \<open>
  The closure state of \<^verbatim>\<open>apply\<close> (lines 153-158) with the two files and what
  the process did: \<^verbatim>\<open>fetchLog\<close> lists the platform fetches, \<^verbatim>\<open>sendCalls\<close> the
  calls of \<^verbatim>\<open>sendUpdate\<close>, \<^verbatim>\<open>delivered\<close> those that rendered and delivered
  without an exception, \<^verbatim>\<open>calls\<close> the calls of \<^verbatim>\<open>createState\<close>,
  \<^verbatim>\<open>updateState\<close> and \<^verbatim>\<open>sendUpdate\<close> in the order in which they were made.
  \<^verbatim>\<open>configWritable\<close> and \<^verbatim>\<open>stateWritable\<close> say whether \<^verbatim>\<open>fs.mkdir\<close> and
  \<^verbatim>\<open>fs.writeFile\<close> succeed on the respective path.
\<close>

record world =
  config :: notify_config
  configLoaded :: bool
  configFile :: "config_doc file_content"
  configWritable :: bool
  stateCache :: "jsstring \<rightharpoonup> vstate"
  stateLoaded :: bool
  saving :: bool
  stateFile :: "state_doc file_content"
  stateWritable :: bool
  lastCheckMap :: "jsstring \<rightharpoonup> int"
  fetchLog :: "(platform \<times> jsstring) list"
  sendCalls :: "notification list"
  delivered :: "notification list"
  calls :: "call list"
  warnLog :: "warning list"

text \<open>
  What one check reads from outside the process: the two readings of
  \<^verbatim>\<open>Date.now()\<close> (in the eligibility test, and when the time stamp is stored),
  the outcome of the platform fetch, and whether the body of \<^verbatim>\<open>sendUpdate\<close>
  (detail fetch, rendering, delivery) runs without throwing.
\<close>

record env =
  nowTest :: int
  nowSet :: int
  fetched :: fetch_result
  notifyOk :: bool

text \<open>\<^verbatim>\<open>!!x\<close> for a flag that is unset or a boolean.\<close>

definition truthyFlag :: "bool option \<Rightarrow> bool" where
  "truthyFlag x = (x = Some True)"

definition getStateKey :: "jsstring \<Rightarrow> platform \<Rightarrow> jsstring \<Rightarrow> jsstring" where
  "getStateKey cid p pid = cid @ (str ''|'') @ platformStr p @ (str ''|'') @ pid"

text \<open>What \<^verbatim>\<open>JSON.stringify\<close> makes of the groups: \<^verbatim>\<open>NaN\<close> and the infinities are written as \<^verbatim>\<open>null\<close>.\<close>

fun jsonNum :: "stored_num \<Rightarrow> stored_num" where
  "jsonNum Unset = Unset"
| "jsonNum Null = Null"
| "jsonNum (Num (Fin n)) = Num (Fin n)"
| "jsonNum (Num NaN) = Null"
| "jsonNum (Num PosInf) = Null"
| "jsonNum (Num NegInf) = Null"

definition jsonSub :: "stored_sub \<Rightarrow> stored_sub" where
  "jsonSub s = s\<lparr> s_interval := jsonNum (s_interval s) \<rparr>"

definition jsonGroup :: "group \<Rightarrow> group" where
  "jsonGroup g = g\<lparr> g_subs := map jsonSub (g_subs g) \<rparr>"

text \<open>
  \<^verbatim>\<open>saveConfigToFile\<close>, lines 192-204: writes \<^verbatim>\<open>{ enabled: !!config.enabled,
  groups }\<close>; a failing write is logged and swallowed.
\<close>

definition saveConfigToFile :: "world \<Rightarrow> world" where
  "saveConfigToFile w =
     (if configWritable w
      then w\<lparr> configFile := Object \<lparr> doc_enabled = Some (truthyFlag (cfg_enabled (config w))),
                                      doc_groups = Some (map jsonGroup (cfg_groups (config w))) \<rparr> \<rparr>
      else w\<lparr> warnLog := warnLog w @ [ConfigWriteFailed] \<rparr>)"

text \<open>
  \<^verbatim>\<open>loadConfigFromFile\<close>, lines 174-190: once per process; a boolean
  \<^verbatim>\<open>enabled\<close> and an array \<^verbatim>\<open>groups\<close> of the file replace the values in
  memory; when reading throws and the groups in memory are not empty, they are
  written out.
\<close>

definition loadConfigFromFile :: "world \<Rightarrow> world" where
  "loadConfigFromFile w =
     (if configLoaded w then w
      else case configFile w of
          Unreadable \<Rightarrow>
            (if cfg_groups (config w) \<noteq> [] then saveConfigToFile (w\<lparr> configLoaded := True \<rparr>)
             else w\<lparr> configLoaded := True \<rparr>)
        | NotObject \<Rightarrow> w\<lparr> configLoaded := True \<rparr>
        | Object json \<Rightarrow>
            w\<lparr> configLoaded := True,
               config := (config w)
                 \<lparr> cfg_enabled := (case doc_enabled json of Some b \<Rightarrow> Some b
                                    | None \<Rightarrow> cfg_enabled (config w)),
                   cfg_groups := (case doc_groups json of Some gs \<Rightarrow> gs
                                   | None \<Rightarrow> cfg_groups (config w)) \<rparr> \<rparr>)"

text \<open>
  The \<^verbatim>\<open>Object.keys(json).forEach\<close> of \<^verbatim>\<open>loadStateFromFile\<close>: every key whose
  value is an object is set in the cache to \<^verbatim>\<open>{ lastVersion: val.lastVersion }\<close>.
\<close>

definition loadEntries :: "state_doc \<Rightarrow> (jsstring \<rightharpoonup> vstate) \<Rightarrow> (jsstring \<rightharpoonup> vstate)" where
  "loadEntries json cache key =
     (case json key of
        Some (Some val) \<Rightarrow> Some \<lparr> lastVersion = lastVersion val \<rparr>
      | Some None \<Rightarrow> cache key
      | None \<Rightarrow> cache key)"

text \<open>
  \<^verbatim>\<open>loadStateFromFile\<close>, lines 206-220: once per process; a failure to read or
  parse leaves the cache as it is.
\<close>

definition loadStateFromFile :: "world \<Rightarrow> world" where
  "loadStateFromFile w =
     (if stateLoaded w then w
      else case stateFile w of
          Object json \<Rightarrow>
            w\<lparr> stateLoaded := True, stateCache := loadEntries json (stateCache w) \<rparr>
        | Unreadable \<Rightarrow> w\<lparr> stateLoaded := True \<rparr>
        | NotObject \<Rightarrow> w\<lparr> stateLoaded := True \<rparr>)"

text \<open>
  The object \<^verbatim>\<open>saveStateToFile\<close> builds from \<^verbatim>\<open>stateCache.entries()\<close>.
\<close>

definition cacheObject :: "(jsstring \<rightharpoonup> vstate) \<Rightarrow> state_doc" where
  "cacheObject cache key =
     (case cache key of
        None \<Rightarrow> None
      | Some val \<Rightarrow> Some (Some \<lparr> lastVersion = lastVersion val \<rparr>))"

text \<open>
  \<^verbatim>\<open>saveStateToFile\<close>, lines 222-236: dropped while another save is in flight;
  otherwise the object is written, a failing write is logged, and the flag is cleared
  in \<^verbatim>\<open>finally\<close>.
\<close>

definition saveStateToFile :: "world \<Rightarrow> world" where
  "saveStateToFile w =
     (if saving w then w
      else if stateWritable w
      then w\<lparr> stateFile := Object (cacheObject (stateCache w)), saving := False \<rparr>
      else w\<lparr> warnLog := warnLog w @ [StateWriteFailed], saving := False \<rparr>)"

text \<open>\<^verbatim>\<open>getState\<close>, \<^verbatim>\<open>createState\<close>, \<^verbatim>\<open>updateState\<close>, lines 238-256.\<close>

definition getState :: "jsstring \<Rightarrow> platform \<Rightarrow> jsstring \<Rightarrow> world \<Rightarrow> vstate option \<times> world" where
  "getState cid p pid w =
     (let w1 = loadStateFromFile w in (stateCache w1 (getStateKey cid p pid), w1))"

definition createState :: "jsstring \<Rightarrow> platform \<Rightarrow> jsstring \<Rightarrow> jsstring \<Rightarrow> world \<Rightarrow> world" where
  "createState cid p pid lv w =
     (let w1 = loadStateFromFile w in
      saveStateToFile
        (w1\<lparr> stateCache := (stateCache w1)(getStateKey cid p pid \<mapsto> \<lparr> lastVersion = Some lv \<rparr>),
             calls := calls w1 @ [CreateState (getStateKey cid p pid) lv] \<rparr>))"

definition updateState :: "jsstring \<Rightarrow> platform \<Rightarrow> jsstring \<Rightarrow> jsstring \<Rightarrow> world \<Rightarrow> world" where
  "updateState cid p pid lv w =
     (let w1 = loadStateFromFile w in
      saveStateToFile
        (w1\<lparr> stateCache := (stateCache w1)(getStateKey cid p pid \<mapsto> \<lparr> lastVersion = Some lv \<rparr>),
             calls := calls w1 @ [UpdateState (getStateKey cid p pid) lv] \<rparr>))"

section \<open>Change detection\<close>

text \<open>\<^verbatim>\<open>a || b\<close> on strings: the empty string is falsy.\<close>

definition orStr :: "jsstring \<Rightarrow> jsstring \<Rightarrow> jsstring" where
  "orStr a b = (if a \<noteq> [] then a else b)"

text \<open>
  \<^verbatim>\<open>sendUpdate\<close>, lines 366-386: the whole body stands in \<^verbatim>\<open>try\<close>; an
  exception is logged and the function returns normally.
\<close>

definition sendUpdate :: "env \<Rightarrow> jsstring \<Rightarrow> platform \<Rightarrow> jsstring \<Rightarrow> latest \<Rightarrow> world \<Rightarrow> world" where
  "sendUpdate e cid p pid l w =
     (let n = \<lparr> n_channelId = cid, n_platform = p, n_projectId = pid, n_latest = l \<rparr>;
          w1 = w\<lparr> sendCalls := sendCalls w @ [n], calls := calls w @ [SendUpdate n] \<rparr>
      in if notifyOk e then w1\<lparr> delivered := delivered w1 @ [n] \<rparr>
         else w1\<lparr> warnLog := warnLog w1 @ [NotifyFailed p pid] \<rparr>)"

record stats =
  checked :: nat
  updated :: nat
  noChange :: nat
  skipped :: nat
  failed :: nat

definition stats0 :: stats where
  "stats0 = \<lparr> checked = 0, updated = 0, noChange = 0, skipped = 0, failed = 0 \<rparr>"

text \<open>
  The body of the loop of \<^verbatim>\<open>checkOnce\<close>, lines 394-436, for one subscription.
  \<^verbatim>\<open>lastCheckMap.get(key) || 0\<close> reads an absent key as \<^verbatim>\<open>0\<close>. The time stamp
  and the \<^verbatim>\<open>checked\<close> counter are written before the fetch; a fetch that throws
  lands in the \<^verbatim>\<open>catch\<close> of the body.
\<close>

definition checkOnce_body :: "env \<Rightarrow> bool \<Rightarrow> sub \<Rightarrow> world \<times> stats \<Rightarrow> world \<times> stats" where
  "checkOnce_body e force sub ws =
     (let w = fst ws; st = snd ws;
          key = channelId sub @ (str ''|'') @ platformStr (platform sub) @ (str ''|'') @ projectId sub;
          lastCheck = (case lastCheckMap w key of None \<Rightarrow> 0 | Some t \<Rightarrow> t)
      in if \<not> force \<and> numLt (Fin (nowTest e - lastCheck)) (interval sub)
         then (w, st\<lparr> skipped := skipped st + 1 \<rparr>)
         else
           let w1 = w\<lparr> lastCheckMap := (lastCheckMap w)(key \<mapsto> nowSet e) \<rparr>;
               st1 = st\<lparr> checked := checked st + 1 \<rparr>;
               w2 = w1\<lparr> fetchLog := fetchLog w1 @ [(platform sub, projectId sub)] \<rparr>
           in case fetched e of
                FetchThrows \<Rightarrow>
                  (w2\<lparr> warnLog := warnLog w2 @ [CheckFailed (platform sub) (projectId sub)] \<rparr>,
                   st1\<lparr> failed := failed st1 + 1 \<rparr>)
              | NoRelease \<Rightarrow> (w2, st1\<lparr> failed := failed st1 + 1 \<rparr>)
              | Latest l \<Rightarrow>
                  (case getState (channelId sub) (platform sub) (projectId sub) w2 of
                     (None, w3) \<Rightarrow>
                       (createState (channelId sub) (platform sub) (projectId sub)
                          (orStr (version l) []) w3,
                        st1\<lparr> noChange := noChange st1 + 1 \<rparr>)
                   | (Some state, w3) \<Rightarrow>
                       if \<not> truthyStr (lastVersion state)
                       then (updateState (channelId sub) (platform sub) (projectId sub)
                               (version l) w3,
                             st1\<lparr> noChange := noChange st1 + 1 \<rparr>)
                       else if Some (version l) = lastVersion state
                       then (w3, st1\<lparr> noChange := noChange st1 + 1 \<rparr>)
                       else (updateState (channelId sub) (platform sub) (projectId sub)
                               (version l)
                               (sendUpdate e (channelId sub) (platform sub) (projectId sub) l w3),
                             st1\<lparr> updated := updated st1 + 1 \<rparr>)))"

text \<open>The \<^verbatim>\<open>for (const sub of subs)\<close> loop; the \<^verbatim>\<open>i\<close>-th iteration meets \<^verbatim>\<open>envs i\<close>.\<close>

fun checkOnce_loop :: "(nat \<Rightarrow> env) \<Rightarrow> bool \<Rightarrow> nat \<Rightarrow> sub list \<Rightarrow> world \<times> stats \<Rightarrow> world \<times> stats" where
  "checkOnce_loop envs force i [] ws = ws"
| "checkOnce_loop envs force i (sub # subs) ws =
     checkOnce_loop envs force (Suc i) subs (checkOnce_body (envs i) force sub ws)"

text \<open>
  \<^verbatim>\<open>checkOnce(channelId?, force = false)\<close>, lines 388-439; the result is
  \<^verbatim>\<open>None\<close> for the bare \<^verbatim>\<open>return\<close> taken when the master switch is off.
\<close>

definition checkOnce :: "(nat \<Rightarrow> env) \<Rightarrow> jsstring option \<Rightarrow> bool \<Rightarrow> world \<Rightarrow> world \<times> stats option" where
  "checkOnce envs channelIdArg force w =
     (let w1 = loadConfigFromFile w in
      if \<not> truthyFlag (cfg_enabled (config w1)) then (w1, None)
      else case checkOnce_loop envs force 0 (getConfigSubs (config w1) channelIdArg) (w1, stats0) of
             (w2, st) \<Rightarrow> (w2, Some st))"

text \<open>
  \<^verbatim>\<open>checkOne(sub, forceSendAll)\<close>, lines 441-476. The result is \<^verbatim>\<open>None\<close> when
  the fetch throws: nothing in \<^verbatim>\<open>checkOne\<close> catches it.
\<close>

record check_result =
  res_sent :: bool
  res_updated :: bool

definition checkOne :: "env \<Rightarrow> sub \<Rightarrow> bool \<Rightarrow> world \<Rightarrow> world \<times> check_result option" where
  "checkOne e sub forceSendAll w =
     (let w1 = loadConfigFromFile w;
          w2 = w1\<lparr> fetchLog := fetchLog w1 @ [(platform sub, projectId sub)] \<rparr>
      in case fetched e of
           FetchThrows \<Rightarrow> (w2, None)
         | NoRelease \<Rightarrow> (w2, Some \<lparr> res_sent = False, res_updated = False \<rparr>)
         | Latest l \<Rightarrow>
             (case getState (channelId sub) (platform sub) (projectId sub) w2 of
                (None, w3) \<Rightarrow>
                  (let w4 = createState (channelId sub) (platform sub) (projectId sub)
                              (orStr (version l) []) w3
                   in if forceSendAll
                      then (updateState (channelId sub) (platform sub) (projectId sub)
                              (orStr (version l) [])
                              (sendUpdate e (channelId sub) (platform sub) (projectId sub) l w4),
                            Some \<lparr> res_sent = True, res_updated = True \<rparr>)
                      else (w4, Some \<lparr> res_sent = False, res_updated = False \<rparr>))
              | (Some state, w3) \<Rightarrow>
                  if forceSendAll
                  then (updateState (channelId sub) (platform sub) (projectId sub)
                          (orStr (version l) [])
                          (sendUpdate e (channelId sub) (platform sub) (projectId sub) l w3),
                        Some \<lparr> res_sent = True, res_updated = True \<rparr>)
                  else if \<not> truthyStr (lastVersion state)
                  then (updateState (channelId sub) (platform sub) (projectId sub)
                          (orStr (version l) []) w3,
                        Some \<lparr> res_sent = False, res_updated = False \<rparr>)
                  else if Some (version l) = lastVersion state
                  then (w3, Some \<lparr> res_sent = False, res_updated = False \<rparr>)
                  else (updateState (channelId sub) (platform sub) (projectId sub)
                          (orStr (version l) [])
                          (sendUpdate e (channelId sub) (platform sub) (projectId sub) l w3),
                        Some \<lparr> res_sent = True, res_updated = True \<rparr>)))"

section \<open>Commands\<close>

text \<open>
  What a command reads from its session: \<^verbatim>\<open>session.channelId\<close> (empty when the
  message has no channel) and what \<^verbatim>\<open>requireManage(session)\<close> resolves to.
\<close>

record session =
  sessionChannelId :: jsstring
  mayManage :: bool

datatype reply =
    ArgsMissing
  | BadPlatform
  | NoChannel
  | NoPermission
  | EmptyProjectId
  | AlreadyExists platform jsstring
  | Added platform jsstring
  | NoSubscriptions
  | IndexNotFound
  | ProjectNotFound
  | NoUpdate
  | NoReply

text \<open>
  \<^verbatim>\<open>groups.find(g => String(g?.channelId) === String(channelId))\<close>, as the index of
  the first group found; the channel id given is a string, and a group whose channel
  id is unset is compared as \<^verbatim>\<open>'undefined'\<close>.
\<close>

fun findGroup :: "jsstring \<Rightarrow> group list \<Rightarrow> nat option" where
  "findGroup c [] = None"
| "findGroup c (g # gs) =
     (if stringOf (g_channelId g) = c then Some 0 else map_option Suc (findGroup c gs))"

text \<open>
  \<^verbatim>\<open>ensureGroup(channelId)\<close>, lines 267-277: the group found, or a new enabled
  group pushed at the end; an \<^verbatim>\<open>enabled\<close> that is not a boolean becomes
  \<^verbatim>\<open>true\<close>. The group is returned by its index in \<^verbatim>\<open>config.groups\<close>.
\<close>

definition ensureGroup :: "jsstring \<Rightarrow> notify_config \<Rightarrow> nat \<times> notify_config" where
  "ensureGroup c cfg =
     (case findGroup c (cfg_groups cfg) of
        None \<Rightarrow>
          (length (cfg_groups cfg),
           cfg\<lparr> cfg_groups := cfg_groups cfg
                  @ [\<lparr> g_channelId = Some c, g_enabled = Some True, g_subs = [] \<rparr>] \<rparr>)
      | Some i \<Rightarrow>
          (i, cfg\<lparr> cfg_groups := (cfg_groups cfg)
                 [i := (cfg_groups cfg ! i)
                    \<lparr> g_enabled := (case g_enabled (cfg_groups cfg ! i) of
                                      None \<Rightarrow> Some True | Some b \<Rightarrow> Some b) \<rparr>] \<rparr>))"

text \<open>
  The action of \<^verbatim>\<open>notify.add <platform> <projectId>\<close>, lines 531-551. A missing
  argument is the empty string.
\<close>

definition notifyAdd :: "session \<Rightarrow> jsstring \<Rightarrow> jsstring \<Rightarrow> world \<Rightarrow> world \<times> reply" where
  "notifyAdd session platformArg projectIdArg w =
     (let w1 = loadConfigFromFile w in
      if platformArg = [] \<or> projectIdArg = [] then (w1, ArgsMissing)
      else case normalizePlatform platformArg of
          None \<Rightarrow> (w1, BadPlatform)
        | Some platformKey \<Rightarrow>
            if sessionChannelId session = [] then (w1, NoChannel)
            else if \<not> mayManage session then (w1, NoPermission)
            else if trim projectIdArg = [] then (w1, EmptyProjectId)
            else
              (case ensureGroup (sessionChannelId session) (config w1) of
                 (i, cfg1) \<Rightarrow>
                   if list_ex (\<lambda>s. normalizePlatform (s_platform s) = Some platformKey
                                    \<and> trim (s_projectId s) = trim projectIdArg)
                        (g_subs (cfg_groups cfg1 ! i))
                   then (w1\<lparr> config := cfg1 \<rparr>, AlreadyExists platformKey (trim projectIdArg))
                   else
                     (saveConfigToFile
                        (w1\<lparr> config := cfg1\<lparr> cfg_groups := (cfg_groups cfg1)
                               [i := (cfg_groups cfg1 ! i)
                                  \<lparr> g_subs := g_subs (cfg_groups cfg1 ! i)
                                      @ [\<lparr> s_platform = platformStr platformKey,
                                           s_projectId = trim projectIdArg,
                                           s_interval = Num (mathMax (Fin (60 * 1000))
                                             (orNum (toNumber (cfg_interval cfg1))
                                                    (Fin (30 * 60 * 1000)))) \<rparr>] \<rparr>] \<rparr> \<rparr>),
                      Added platformKey (trim projectIdArg))))"

text \<open>
  The argument of \<^verbatim>\<open>notify.check [arg]\<close>: the text (empty when absent) and the
  value \<^verbatim>\<open>Number(arg)\<close> has for it.
\<close>

record check_arg =
  argText :: jsstring
  argNumber :: jsnum

text \<open>
  The choice of targets, lines 638-650: a finite positive number is a 1-based index
  into the list, any other argument a project id to find.
\<close>

definition selectTargets :: "check_arg \<Rightarrow> sub list \<Rightarrow> reply + sub list" where
  "selectTargets a list =
     (if argText a = [] then Inr list
      else if isFinite (argNumber a) \<and> numLt (Fin 0) (argNumber a)
      then (case argNumber a of
              Fin idx \<Rightarrow> (if nat (idx - 1) < length list then Inr [list ! nat (idx - 1)]
                          else Inl IndexNotFound)
            | NaN \<Rightarrow> Inl IndexNotFound
            | PosInf \<Rightarrow> Inl IndexNotFound
            | NegInf \<Rightarrow> Inl IndexNotFound)
      else (case find (\<lambda>s. projectId s = argText a) list of
              None \<Rightarrow> Inl ProjectNotFound
            | Some sub \<Rightarrow> Inr [sub]))"

text \<open>
  The loop over the targets, lines 652-660: an exception of \<^verbatim>\<open>checkOne\<close> is
  logged, a result with \<^verbatim>\<open>sent\<close> is counted.
\<close>

fun checkTargets :: "(nat \<Rightarrow> env) \<Rightarrow> bool \<Rightarrow> nat \<Rightarrow> sub list \<Rightarrow> world \<times> nat \<Rightarrow> world \<times> nat" where
  "checkTargets envs broadcast i [] wn = wn"
| "checkTargets envs broadcast i (sub # targets) wn =
     checkTargets envs broadcast (Suc i) targets
       (case checkOne (envs i) sub broadcast (fst wn) of
          (w1, None) \<Rightarrow>
            (w1\<lparr> warnLog := warnLog w1 @ [CheckFailed (platform sub) (projectId sub)] \<rparr>, snd wn)
        | (w1, Some res) \<Rightarrow> (w1, if res_sent res then snd wn + 1 else snd wn))"

text \<open>The action of \<^verbatim>\<open>notify.check [arg]\<close> with its option \<^verbatim>\<open>-b\<close>, lines 627-663.\<close>

definition notifyCheck :: "(nat \<Rightarrow> env) \<Rightarrow> session \<Rightarrow> check_arg \<Rightarrow> bool \<Rightarrow> world \<Rightarrow> world \<times> reply" where
  "notifyCheck envs session a broadcast w =
     (let w1 = loadConfigFromFile w in
      if sessionChannelId session = [] then (w1, NoChannel)
      else if \<not> mayManage session then (w1, NoPermission)
      else if getConfigSubsOrdered (config w1) (Some (sessionChannelId session)) = []
      then (w1, NoSubscriptions)
      else case selectTargets a (getConfigSubsOrdered (config w1) (Some (sessionChannelId session))) of
          Inl r \<Rightarrow> (w1, r)
        | Inr targets \<Rightarrow>
            (case checkTargets envs broadcast 0 targets (w1, 0) of
               (w2, sent) \<Rightarrow> (w2, if sent = 0 then NoUpdate else NoReply)))"

section \<open>Start of a process and the uniqueness invariant\<close>

text \<open>
  The closure state at the start of \<^verbatim>\<open>apply(ctx, config, options)\<close>, lines 153-158:
  empty maps, all flags \<^verbatim>\<open>false\<close>. The process starts with the plugin
  configuration it is given and finds the files a former process \<^verbatim>\<open>w\<close> left.
\<close>

definition restart :: "notify_config \<Rightarrow> world \<Rightarrow> world" where
  "restart cfg0 w =
     \<lparr> config = cfg0, configLoaded = False, configFile = configFile w,
       configWritable = configWritable w, stateCache = Map.empty, stateLoaded = False,
       saving = False, stateFile = stateFile w, stateWritable = stateWritable w,
       lastCheckMap = Map.empty, fetchLog = [], sendCalls = [], delivered = [],
       calls = [], warnLog = [] \<rparr>"

text \<open>
  The pair a stored subscription is compared by in \<^verbatim>\<open>notify.add\<close> and
  \<^verbatim>\<open>notify.remove\<close>: the normalized platform and the trimmed project id. The
  uniqueness invariant of the data model says that the pairs of the stored
  subscriptions with a known platform are distinct within a group.
\<close>

definition subPair :: "stored_sub \<Rightarrow> platform option \<times> jsstring" where
  "subPair s = (normalizePlatform (s_platform s), trim (s_projectId s))"

definition uniquePairs :: "stored_sub list \<Rightarrow> bool" where
  "uniquePairs subs =
     distinct (map subPair (filter (\<lambda>s. normalizePlatform (s_platform s) \<noteq> None) subs))"

section \<open>Concrete inputs\<close>

text \<open>
  Channel \<^verbatim>\<open>c1\<close> with a subscription whose interval is unset and one whose stored
  interval is \<^verbatim>\<open>0\<close>; the default interval is ten minutes.
\<close>

definition subUnset :: stored_sub where
  "subUnset = \<lparr> s_platform = (str ''mr''), s_projectId = (str ''abc123''), s_interval = Unset \<rparr>"

definition subZero :: stored_sub where
  "subZero = \<lparr> s_platform = (str ''cf''), s_projectId = (str ''42''), s_interval = Num (Fin 0) \<rparr>"

definition cfgTwo :: notify_config where
  "cfgTwo = \<lparr> cfg_enabled = Some True,
              cfg_groups = [\<lparr> g_channelId = Some (str ''c1''), g_enabled = Some True,
                              g_subs = [subUnset, subZero] \<rparr>],
              cfg_interval = Num (Fin 600000) \<rparr>"

text \<open>
  The subscription \<^verbatim>\<open>mr:abc123\<close> of channel \<^verbatim>\<open>c1\<close> as \<^verbatim>\<open>getConfigSubs\<close>
  returns it, its state key, and three fetch results: two that differ only outside
  the version label and one with a new label.
\<close>

definition sub1 :: sub where
  "sub1 = \<lparr> channelId = (str ''c1''), platform = MR, projectId = (str ''abc123''), interval = Fin 600000 \<rparr>"

definition key1 :: jsstring where
  "key1 = (str ''c1|mr|abc123'')"

definition latest100 :: latest where
  "latest100 = \<lparr> versionId = (str ''v-100''), version = (str ''1.0.0''), changelog = (str ''first''),
                  downloads = 10, datePublished = (str ''2026-01-01''), loaders = [(str ''fabric'')],
                  gameVersions = [(str ''1.21'')], fileName = (str ''a-1.0.0.jar''), fileSize = 1000 \<rparr>"

definition latest100b :: latest where
  "latest100b = \<lparr> versionId = (str ''v-101''), version = (str ''1.0.0''), changelog = (str ''rebuilt''),
                   downloads = 25, datePublished = (str ''2026-02-01''), loaders = [(str ''fabric'')],
                   gameVersions = [(str ''1.21'')], fileName = (str ''a-1.0.0.jar''), fileSize = 1001 \<rparr>"

definition latest110 :: latest where
  "latest110 = \<lparr> versionId = (str ''v-110''), version = (str ''1.1.0''), changelog = (str ''second''),
                  downloads = 0, datePublished = (str ''2026-03-01''), loaders = [(str ''fabric'')],
                  gameVersions = [(str ''1.21'')], fileName = (str ''a-1.1.0.jar''), fileSize = 1100 \<rparr>"

definition note1 :: "latest \<Rightarrow> notification" where
  "note1 l = \<lparr> n_channelId = (str ''c1''), n_platform = MR, n_projectId = (str ''abc123''), n_latest = l \<rparr>"

text \<open>
  A process that has loaded both files and holds no state and no time stamp, and the
  same process with the state \<^verbatim>\<open>1.0.0\<close> for the subscription, in memory and on disk.
\<close>

definition worldEmpty :: world where
  "worldEmpty = \<lparr> config = cfgTwo, configLoaded = True, configFile = Unreadable,
                   configWritable = True, stateCache = Map.empty, stateLoaded = True,
                   saving = False, stateFile = Unreadable, stateWritable = True,
                   lastCheckMap = Map.empty, fetchLog = [], sendCalls = [], delivered = [],
                   calls = [], warnLog = [] \<rparr>"

definition worldSeeded :: world where
  "worldSeeded = worldEmpty
     \<lparr> stateCache := [key1 \<mapsto> \<lparr> lastVersion = Some (str ''1.0.0'') \<rparr>],
       stateFile := Object [key1 \<mapsto> Some \<lparr> lastVersion = Some (str ''1.0.0'') \<rparr>] \<rparr>"

text \<open>A check at time \<^verbatim>\<open>t\<close> that meets the given fetch and notification outcomes.\<close>

definition envAt :: "int \<Rightarrow> fetch_result \<Rightarrow> bool \<Rightarrow> env" where
  "envAt t f ok = \<lparr> nowTest = t, nowSet = t, fetched = f, notifyOk = ok \<rparr>"

text \<open>
  The same channel with a stored interval of \<^verbatim>\<open>2 * 10^12\<close> ms, and a process that
  holds this configuration and nothing else.
\<close>

definition subLong :: sub where
  "subLong = \<lparr> channelId = (str ''c1''), platform = MR, projectId = (str ''abc123''),
               interval = Fin 2000000000000 \<rparr>"

definition cfgLong :: notify_config where
  "cfgLong = \<lparr> cfg_enabled = Some True,
               cfg_groups = [\<lparr> g_channelId = Some (str ''c1''), g_enabled = Some True,
                               g_subs = [\<lparr> s_platform = (str ''mr''), s_projectId = (str ''abc123''),
                                           s_interval = Num (Fin 2000000000000) \<rparr>] \<rparr>],
               cfg_interval = Num (Fin 600000) \<rparr>"

definition worldLong :: world where
  "worldLong = worldEmpty\<lparr> config := cfgLong \<rparr>"

text \<open>The process with the state \<^verbatim>\<open>1.0.0\<close> and a time stamp for the subscription.\<close>

definition worldStamped :: world where
  "worldStamped = worldSeeded\<lparr> lastCheckMap := [key1 \<mapsto> 1793577600000] \<rparr>"

text \<open>
  Channel \<^verbatim>\<open>c1\<close> disabled, with its two stored subscriptions; a session of that
  channel whose user may manage subscriptions.
\<close>

definition cfgDisabled :: notify_config where
  "cfgDisabled = cfgTwo\<lparr> cfg_groups := [\<lparr> g_channelId = Some (str ''c1''), g_enabled = Some False,
                                            g_subs = [subUnset, subZero] \<rparr>] \<rparr>"

definition worldDisabled :: world where
  "worldDisabled = worldSeeded\<lparr> config := cfgDisabled \<rparr>"

definition session1 :: session where
  "session1 = \<lparr> sessionChannelId = (str ''c1''), mayManage = True \<rparr>"

text \<open>
  The project id \<^verbatim>\<open>abc123\<close> as a user may type it: between spaces and followed by
  a no-break space \<^verbatim>\<open>U+00A0\<close> and an ideographic space \<^verbatim>\<open>U+3000\<close>. And a
  project id of white space only.
\<close>

definition idSpaced :: jsstring where
  "idSpaced = str '' abc123 '' @ [0xA0, 0x3000]"

definition idWhite :: jsstring where
  "idWhite = [0xA0, 0x3000, 0xFEFF]"

text \<open>
  A process whose master switch is unset, and one whose only stored subscription has
  the interval \<^verbatim>\<open>Infinity\<close>.
\<close>

definition cfgUnset :: notify_config where
  "cfgUnset = cfgTwo\<lparr> cfg_enabled := None \<rparr>"

definition worldUnset :: world where
  "worldUnset = worldEmpty\<lparr> config := cfgUnset \<rparr>"

definition cfgInf :: notify_config where
  "cfgInf = cfgTwo\<lparr> cfg_groups := [\<lparr> g_channelId = Some (str ''c1''), g_enabled = Some True,
                          g_subs = [\<lparr> s_platform = (str ''mr''), s_projectId = (str ''abc123''),
                                      s_interval = Num PosInf \<rparr>] \<rparr>] \<rparr>"

definition worldInf :: world where
  "worldInf = worldEmpty\<lparr> config := cfgInf \<rparr>"

text \<open>
  A \<^verbatim>\<open>notify.check\<close> without argument, and an outside world in which every check
  fetches \<^verbatim>\<open>1.1.0\<close> at the same time and every notification goes through.
\<close>

definition argNone :: check_arg where
  "argNone = \<lparr> argText = [], argNumber = NaN \<rparr>"

definition envsNew :: "nat \<Rightarrow> env" where
  "envsNew i = envAt 1793577600000 (Latest latest110) True"

section \<open>Strings\<close>

lemma str_eq_iff [simp]: "str a = str b \<longleftrightarrow> a = b"
  by (simp add: str_def inj_map_eq_map[OF inj_of_char])

lemma str_Nil [simp]: "str [] = []"
  by (simp add: str_def)

lemma str_eq_Nil [simp]: "str a = [] \<longleftrightarrow> a = []" "[] = str a \<longleftrightarrow> a = []"
  by (auto simp add: str_def)

lemma str_append [simp]: "str a @ str b = str (a @ b)"
  by (simp add: str_def)

lemma str_append_assoc [simp]: "str a @ str b @ c = str (a @ b) @ c"
  by (simp add: str_def)

lemma trim_Nil [simp]: "trim [] = []"
  by (simp add: trim_def)

text \<open>The project ids of the concrete inputs are free of white space at both ends.\<close>

lemma trim_examples:
  "trim (str ''abc123'') = str ''abc123''"
  "trim (str ''42'') = str ''42''"
  "trim (str ''99'') = str ''99''"
  by (simp_all add: trim_def isWhite_def str_def)

text \<open>
  Spaces, a no-break space \<^verbatim>\<open>U+00A0\<close> and an ideographic space \<^verbatim>\<open>U+3000\<close>
  around a project id are stripped; an id of white space only is empty.
\<close>

lemma trim_spaced: "trim idSpaced = str ''abc123''"
  by (simp add: idSpaced_def trim_def isWhite_def str_def)

lemma trim_only_white: "trim idWhite = []" "idWhite \<noteq> []"
  by (simp_all add: idWhite_def trim_def isWhite_def)

section \<open>Enumeration of subscriptions\<close>

lemma getConfigSubsOrdered_inner_eq:
  "getConfigSubsOrdered_inner cfg cid list = getConfigSubs_inner cfg cid list"
  by (induction list) (auto split: option.splits)

lemma getConfigSubsOrdered_outer_eq:
  "getConfigSubsOrdered_outer cfg c gs = getConfigSubs_outer cfg c gs"
  by (induction gs) (simp_all add: getConfigSubsOrdered_inner_eq)

lemma getConfigSubsOrdered_eq: "getConfigSubsOrdered cfg c = getConfigSubs cfg c"
  by (simp add: getConfigSubsOrdered_def getConfigSubs_def getConfigSubsOrdered_outer_eq)

text \<open>
  C9. For every configuration and every optional channel id, \<^verbatim>\<open>getConfigSubs\<close>
  and \<^verbatim>\<open>getConfigSubsOrdered\<close> return the same list: the same elements in the
  same order.
\<close>

theorem getConfigSubsOrdered_same_list:
  "getConfigSubsOrdered cfg channelIdArg = getConfigSubs cfg channelIdArg"
  by (rule getConfigSubsOrdered_eq)

lemma numLe_mathMax_left: "a \<noteq> NaN \<Longrightarrow> b \<noteq> NaN \<Longrightarrow> numLe a (mathMax a b)"
  by (cases a; cases b) simp_all

lemma orNum_not_NaN: "b \<noteq> NaN \<Longrightarrow> truthyNum b \<Longrightarrow> orNum a b \<noteq> NaN"
  by (cases a) (simp_all add: orNum_def)

lemma effective_interval_floor:
  "numLe (Fin 60000) (mathMax (Fin (60 * 1000)) (orNum a (Fin (30 * 60 * 1000))))"
  using numLe_mathMax_left[of "Fin 60000" "orNum a (Fin 1800000)"]
    orNum_not_NaN[of "Fin 1800000" a]
  by simp

lemma inner_interval_floor:
  "sub \<in> set (getConfigSubs_inner cfg cid list) \<Longrightarrow> numLe (Fin 60000) (interval sub)"
proof (induction list)
  case Nil
  then show ?case by simp
next
  case (Cons s list)
  then show ?case
    using effective_interval_floor[of "orNum (toNumber (s_interval s)) (toNumber (cfg_interval cfg))"]
    by (auto split: option.splits if_splits)
qed

lemma outer_interval_floor:
  "sub \<in> set (getConfigSubs_outer cfg c gs) \<Longrightarrow> numLe (Fin 60000) (interval sub)"
  by (induction gs) (auto split: if_splits dest: inner_interval_floor)

lemma getConfigSubs_interval_floor:
  "sub \<in> set (getConfigSubs cfg c) \<Longrightarrow> numLe (Fin 60000) (interval sub)"
  by (simp add: getConfigSubs_def outer_interval_floor)

text \<open>
  C4, as the claim states it, fails: a stored interval \<^verbatim>\<open>0\<close> is not replaced by
  the default. The guard \<^verbatim>\<open>Number.isFinite(rawInterval) && rawInterval <= 0\<close>
  passes the entry over, so the subscription is not enumerated and takes part in no
  check. In \<^verbatim>\<open>cfgTwo\<close> only the subscription with the unset interval is returned.
\<close>

theorem nonpositive_interval_counterexample:
  "getConfigSubs cfgTwo None
     = [\<lparr> channelId = (str ''c1''), platform = MR, projectId = (str ''abc123''), interval = Fin 600000 \<rparr>]
   \<and> getConfigSubs_inner cfgTwo (str ''c1'') [subZero] = []"
  by (simp add: getConfigSubs_def cfgTwo_def subUnset_def subZero_def normalizePlatform_def
      trim_examples truthyStr_def orNum_def)

text \<open>
  C4, amended. Every subscription that \<^verbatim>\<open>getConfigSubs\<close> (or
  \<^verbatim>\<open>getConfigSubsOrdered\<close>) returns has an interval of at least 60000 ms. A stored
  entry with a known platform, a non-empty project id and an unset interval is
  returned with the default interval, \<^verbatim>\<open>Number(config.interval) || 30 * 60 * 1000\<close>,
  raised to 60000 ms. A stored entry whose interval is a finite number \<^verbatim>\<open><= 0\<close> is
  dropped from the enumeration.
\<close>

theorem interval_normalization:
  "(\<forall>sub \<in> set (getConfigSubs cfg c). numLe (Fin 60000) (interval sub))
   \<and> (\<forall>sub \<in> set (getConfigSubsOrdered cfg c). numLe (Fin 60000) (interval sub))
   \<and> (normalizePlatform (s_platform s) = Some p \<longrightarrow> trim (s_projectId s) \<noteq> [] \<longrightarrow>
        s_interval s = Unset \<longrightarrow>
        getConfigSubs_inner cfg cid (s # list)
          = \<lparr> channelId = cid, platform = p, projectId = trim (s_projectId s),
              interval = mathMax (Fin 60000)
                (orNum (toNumber (cfg_interval cfg)) (Fin 1800000)) \<rparr>
            # getConfigSubs_inner cfg cid list)
   \<and> (s_interval t = Num (Fin n) \<longrightarrow> n \<le> 0 \<longrightarrow>
        getConfigSubs_inner cfg cid (t # list) = getConfigSubs_inner cfg cid list)"
proof (intro conjI ballI impI)
  fix sub assume "sub \<in> set (getConfigSubs cfg c)"
  then show "numLe (Fin 60000) (interval sub)" by (rule getConfigSubs_interval_floor)
next
  fix sub assume "sub \<in> set (getConfigSubsOrdered cfg c)"
  then show "numLe (Fin 60000) (interval sub)"
    by (simp add: getConfigSubsOrdered_eq getConfigSubs_interval_floor)
next
  assume "normalizePlatform (s_platform s) = Some p" "trim (s_projectId s) \<noteq> []"
    "s_interval s = Unset"
  then show "getConfigSubs_inner cfg cid (s # list)
          = \<lparr> channelId = cid, platform = p, projectId = trim (s_projectId s),
              interval = mathMax (Fin 60000)
                (orNum (toNumber (cfg_interval cfg)) (Fin 1800000)) \<rparr>
            # getConfigSubs_inner cfg cid list"
    by (simp add: orNum_def)
next
  assume "s_interval t = Num (Fin n)" "n \<le> 0"
  then show "getConfigSubs_inner cfg cid (t # list) = getConfigSubs_inner cfg cid list"
    by (simp split: option.splits)
qed

theorem interval_normalization_witness:
  "getConfigSubs cfgTwo (Some (str ''c1''))
     = [\<lparr> channelId = (str ''c1''), platform = MR, projectId = (str ''abc123''), interval = Fin 600000 \<rparr>]
   \<and> numLe (Fin 60000) (Fin 600000)
   \<and> s_interval subUnset = Unset
   \<and> getConfigSubs_inner cfgTwo (str ''c1'') [subUnset, subZero]
       = \<lparr> channelId = (str ''c1''), platform = MR, projectId = (str ''abc123''), interval = Fin 600000 \<rparr>
         # getConfigSubs_inner cfgTwo (str ''c1'') [subZero]
   \<and> s_interval subZero = Num (Fin 0)
   \<and> getConfigSubs_inner cfgTwo (str ''c1'') [subZero] = getConfigSubs_inner cfgTwo (str ''c1'') []"
  using interval_normalization[where cfg = cfgTwo and c = "Some (str ''c1'')" and s = subUnset
      and p = MR and cid = "(str ''c1'')" and list = "[subZero]" and t = subZero and n = 0]
  by (simp add: getConfigSubs_def getConfigSubsOrdered_def cfgTwo_def subUnset_def subZero_def
      normalizePlatform_def trim_examples truthyStr_def orNum_def)

section \<open>The state store and the check of one subscription\<close>

lemma loadState_lastCheckMap_upd:
  "loadStateFromFile (w\<lparr> lastCheckMap := m \<rparr>) = (loadStateFromFile w)\<lparr> lastCheckMap := m \<rparr>"
  by (simp add: loadStateFromFile_def split: file_content.splits)

lemma loadState_fetchLog_upd:
  "loadStateFromFile (w\<lparr> fetchLog := m \<rparr>) = (loadStateFromFile w)\<lparr> fetchLog := m \<rparr>"
  by (simp add: loadStateFromFile_def split: file_content.splits)

lemma loadState_frame:
  "sendCalls (loadStateFromFile w) = sendCalls w"
  "delivered (loadStateFromFile w) = delivered w"
  "fetchLog (loadStateFromFile w) = fetchLog w"
  "lastCheckMap (loadStateFromFile w) = lastCheckMap w"
  "warnLog (loadStateFromFile w) = warnLog w"
  "stateFile (loadStateFromFile w) = stateFile w"
  "stateWritable (loadStateFromFile w) = stateWritable w"
  "saving (loadStateFromFile w) = saving w"
  "config (loadStateFromFile w) = config w"
  "configFile (loadStateFromFile w) = configFile w"
  "configLoaded (loadStateFromFile w) = configLoaded w"
  "configWritable (loadStateFromFile w) = configWritable w"
  "calls (loadStateFromFile w) = calls w"
  "stateLoaded (loadStateFromFile w) = True"
  by (simp_all add: loadStateFromFile_def split: file_content.splits)

lemma loadState_idem: "loadStateFromFile (loadStateFromFile w) = loadStateFromFile w"
  by (simp add: loadStateFromFile_def split: file_content.splits)

lemma loadState_loaded: "stateLoaded w \<Longrightarrow> loadStateFromFile w = w"
  by (simp add: loadStateFromFile_def)

lemma saveState_frame:
  "sendCalls (saveStateToFile w) = sendCalls w"
  "delivered (saveStateToFile w) = delivered w"
  "fetchLog (saveStateToFile w) = fetchLog w"
  "lastCheckMap (saveStateToFile w) = lastCheckMap w"
  "stateCache (saveStateToFile w) = stateCache w"
  "stateLoaded (saveStateToFile w) = stateLoaded w"
  "stateWritable (saveStateToFile w) = stateWritable w"
  "config (saveStateToFile w) = config w"
  "configFile (saveStateToFile w) = configFile w"
  "configLoaded (saveStateToFile w) = configLoaded w"
  "configWritable (saveStateToFile w) = configWritable w"
  "calls (saveStateToFile w) = calls w"
  "saving (saveStateToFile w) = saving w"
  by (simp_all add: saveStateToFile_def)

lemma getState_eq:
  "getState c p k w = (stateCache (loadStateFromFile w) (getStateKey c p k), loadStateFromFile w)"
  by (simp add: getState_def Let_def)

lemma updateState_cache:
  "stateCache (updateState c p k lv w)
     = (stateCache (loadStateFromFile w))(getStateKey c p k \<mapsto> \<lparr> lastVersion = Some lv \<rparr>)"
  by (simp add: updateState_def saveState_frame Let_def)

lemma createState_cache:
  "stateCache (createState c p k lv w)
     = (stateCache (loadStateFromFile w))(getStateKey c p k \<mapsto> \<lparr> lastVersion = Some lv \<rparr>)"
  by (simp add: createState_def saveState_frame Let_def)

lemma createState_cache_key:
  "stateCache (createState c p k lv w) (getStateKey c p k) = Some \<lparr> lastVersion = Some lv \<rparr>"
  by (simp add: createState_cache)

lemma updateState_frame:
  "sendCalls (updateState c p k lv w) = sendCalls w"
  "delivered (updateState c p k lv w) = delivered w"
  "fetchLog (updateState c p k lv w) = fetchLog w"
  "lastCheckMap (updateState c p k lv w) = lastCheckMap w"
  "config (updateState c p k lv w) = config w"
  "configFile (updateState c p k lv w) = configFile w"
  "stateLoaded (updateState c p k lv w) = True"
  by (simp_all add: updateState_def saveState_frame loadState_frame Let_def)

lemma createState_frame:
  "sendCalls (createState c p k lv w) = sendCalls w"
  "delivered (createState c p k lv w) = delivered w"
  "fetchLog (createState c p k lv w) = fetchLog w"
  "lastCheckMap (createState c p k lv w) = lastCheckMap w"
  "config (createState c p k lv w) = config w"
  "configFile (createState c p k lv w) = configFile w"
  "stateWritable (createState c p k lv w) = stateWritable w"
  "saving (createState c p k lv w) = saving w"
  "stateLoaded (createState c p k lv w) = True"
  by (simp_all add: createState_def saveState_frame loadState_frame Let_def)

text \<open>The order of the calls: each of the three functions appends its own call.\<close>

lemma createState_trace:
  "calls (createState c p k lv w) = calls w @ [CreateState (getStateKey c p k) lv]"
  by (simp add: createState_def saveState_frame loadState_frame Let_def)

lemma updateState_trace:
  "calls (updateState c p k lv w) = calls w @ [UpdateState (getStateKey c p k) lv]"
  by (simp add: updateState_def saveState_frame loadState_frame Let_def)

lemma sendUpdate_trace:
  "calls (sendUpdate e c p k l w)
     = calls w @ [SendUpdate \<lparr> n_channelId = c, n_platform = p, n_projectId = k, n_latest = l \<rparr>]"
  by (simp add: sendUpdate_def Let_def)

lemma sendUpdate_frame:
  "stateCache (sendUpdate e c p k l w) = stateCache w"
  "stateLoaded (sendUpdate e c p k l w) = stateLoaded w"
  "stateFile (sendUpdate e c p k l w) = stateFile w"
  "stateWritable (sendUpdate e c p k l w) = stateWritable w"
  "saving (sendUpdate e c p k l w) = saving w"
  "fetchLog (sendUpdate e c p k l w) = fetchLog w"
  "lastCheckMap (sendUpdate e c p k l w) = lastCheckMap w"
  "config (sendUpdate e c p k l w) = config w"
  "configFile (sendUpdate e c p k l w) = configFile w"
  by (simp_all add: sendUpdate_def Let_def)

lemma sendUpdate_calls:
  "sendCalls (sendUpdate e c p k l w)
     = sendCalls w @ [\<lparr> n_channelId = c, n_platform = p, n_projectId = k, n_latest = l \<rparr>]"
  by (simp add: sendUpdate_def Let_def)

lemma sendUpdate_delivered:
  "delivered (sendUpdate e c p k l w)
     = (if notifyOk e
        then delivered w @ [\<lparr> n_channelId = c, n_platform = p, n_projectId = k, n_latest = l \<rparr>]
        else delivered w)"
  by (simp add: sendUpdate_def Let_def)

lemma loadState_sendUpdate:
  "loadStateFromFile (sendUpdate e c p k l w) = sendUpdate e c p k l (loadStateFromFile w)"
  by (simp add: sendUpdate_def loadStateFromFile_def Let_def split: file_content.splits)

lemma loadState_cache_cong:
  "stateLoaded a = stateLoaded b \<Longrightarrow> stateFile a = stateFile b \<Longrightarrow> stateCache a = stateCache b
   \<Longrightarrow> stateCache (loadStateFromFile a) = stateCache (loadStateFromFile b)"
  by (simp add: loadStateFromFile_def split: file_content.splits)

text \<open>
  The body of \<^verbatim>\<open>checkOnce\<close> once the subscription is not skipped and the fetch
  has returned a record.
\<close>

lemma body_not_skipped:
  assumes "force \<or> \<not> numLt (Fin (nowTest e - (case lastCheckMap w (getStateKey (channelId sub) (platform sub) (projectId sub)) of None \<Rightarrow> 0 | Some t \<Rightarrow> t))) (interval sub)"
    and "fetched e = Latest l"
  shows "checkOnce_body e force sub (w, st) =
    (let w3 = loadStateFromFile (w\<lparr> lastCheckMap := (lastCheckMap w)(getStateKey (channelId sub) (platform sub) (projectId sub) \<mapsto> nowSet e),
               fetchLog := fetchLog w @ [(platform sub, projectId sub)] \<rparr>);
         st1 = st\<lparr> checked := checked st + 1 \<rparr>
     in case stateCache w3 (getStateKey (channelId sub) (platform sub) (projectId sub)) of
          None \<Rightarrow> (createState (channelId sub) (platform sub) (projectId sub) (version l) w3,
                    st1\<lparr> noChange := noChange st1 + 1 \<rparr>)
        | Some state \<Rightarrow>
            if \<not> truthyStr (lastVersion state)
            then (updateState (channelId sub) (platform sub) (projectId sub) (version l) w3,
                  st1\<lparr> noChange := noChange st1 + 1 \<rparr>)
            else if Some (version l) = lastVersion state
            then (w3, st1\<lparr> noChange := noChange st1 + 1 \<rparr>)
            else (updateState (channelId sub) (platform sub) (projectId sub) (version l)
                    (sendUpdate e (channelId sub) (platform sub) (projectId sub) l w3),
                  st1\<lparr> updated := updated st1 + 1 \<rparr>))"
  using assms
  by (auto simp add: checkOnce_body_def getState_eq Let_def getStateKey_def orStr_def split: option.splits)



lemma updateState_file_cache:
  "stateWritable w \<Longrightarrow> \<not> saving w \<Longrightarrow>
   stateFile (updateState c p k lv w) = Object (cacheObject (stateCache (updateState c p k lv w)))"
  by (simp add: updateState_def saveStateToFile_def loadState_frame Let_def)

lemma createState_file_cache:
  "stateWritable w \<Longrightarrow> \<not> saving w \<Longrightarrow>
   stateFile (createState c p k lv w) = Object (cacheObject (stateCache (createState c p k lv w)))"
  by (simp add: createState_def saveStateToFile_def loadState_frame Let_def)

lemma loadConfig_frame:
  "stateCache (loadConfigFromFile w) = stateCache w"
  "stateLoaded (loadConfigFromFile w) = stateLoaded w"
  "stateFile (loadConfigFromFile w) = stateFile w"
  "stateWritable (loadConfigFromFile w) = stateWritable w"
  "saving (loadConfigFromFile w) = saving w"
  "sendCalls (loadConfigFromFile w) = sendCalls w"
  "delivered (loadConfigFromFile w) = delivered w"
  "fetchLog (loadConfigFromFile w) = fetchLog w"
  "lastCheckMap (loadConfigFromFile w) = lastCheckMap w"
  "calls (loadConfigFromFile w) = calls w"
  "configLoaded (loadConfigFromFile w) = True"
  by (simp_all add: loadConfigFromFile_def saveConfigToFile_def split: file_content.splits)

lemma loadConfig_loaded: "configLoaded w \<Longrightarrow> loadConfigFromFile w = w"
  by (simp add: loadConfigFromFile_def)

lemma body_skipped:
  assumes "\<not> force"
    and "numLt (Fin (nowTest e - (case lastCheckMap w (getStateKey (channelId sub) (platform sub) (projectId sub)) of None \<Rightarrow> 0 | Some t \<Rightarrow> t))) (interval sub)"
  shows "checkOnce_body e force sub (w, st) = (w, st\<lparr> skipped := skipped st + 1 \<rparr>)"
  using assms by (simp add: checkOnce_body_def Let_def getStateKey_def)

lemma body_checked:
  assumes "force \<or> \<not> numLt (Fin (nowTest e - (case lastCheckMap w (getStateKey (channelId sub) (platform sub) (projectId sub)) of None \<Rightarrow> 0 | Some t \<Rightarrow> t))) (interval sub)"
  shows "lastCheckMap (fst (checkOnce_body e force sub (w, st)))
           (getStateKey (channelId sub) (platform sub) (projectId sub)) = Some (nowSet e)"
    and "fetchLog (fst (checkOnce_body e force sub (w, st)))
           = fetchLog w @ [(platform sub, projectId sub)]"
    and "checked (snd (checkOnce_body e force sub (w, st))) = checked st + 1"
    and "skipped (snd (checkOnce_body e force sub (w, st))) = skipped st"
proof -
  let ?key = "getStateKey (channelId sub) (platform sub) (projectId sub)"
  let ?w2 = "w\<lparr> lastCheckMap := (lastCheckMap w)(?key \<mapsto> nowSet e),
               fetchLog := fetchLog w @ [(platform sub, projectId sub)] \<rparr>"
  let ?r = "checkOnce_body e force sub (w, st)"
  have "lastCheckMap (fst ?r) ?key = Some (nowSet e)
      \<and> fetchLog (fst ?r) = fetchLog w @ [(platform sub, projectId sub)]
      \<and> checked (snd ?r) = checked st + 1 \<and> skipped (snd ?r) = skipped st"
  proof (cases "fetched e")
    case FetchThrows
    with assms show ?thesis by (auto simp add: checkOnce_body_def Let_def getStateKey_def)
  next
    case NoRelease
    with assms show ?thesis by (auto simp add: checkOnce_body_def Let_def getStateKey_def)
  next
    case (Latest l)
    have eq: "loadStateFromFile ?w2 = (loadStateFromFile w)\<lparr> lastCheckMap := (lastCheckMap w)(?key \<mapsto> nowSet e),
               fetchLog := fetchLog w @ [(platform sub, projectId sub)] \<rparr>"
      by (simp add: loadState_lastCheckMap_upd loadState_fetchLog_upd)
    show ?thesis
      unfolding body_not_skipped[OF assms Latest] Let_def
      by (simp add: createState_frame updateState_frame sendUpdate_frame loadState_frame
          split: option.splits)
  qed
  then show "lastCheckMap (fst ?r) ?key = Some (nowSet e)"
    and "fetchLog (fst ?r) = fetchLog w @ [(platform sub, projectId sub)]"
    and "checked (snd ?r) = checked st + 1" and "skipped (snd ?r) = skipped st"
    by simp_all
qed

lemma checkOne_latest:
  assumes "fetched e = Latest l"
  shows "checkOne e sub forceSendAll w =
    (let w3 = loadStateFromFile ((loadConfigFromFile w)
                \<lparr> fetchLog := fetchLog w @ [(platform sub, projectId sub)] \<rparr>)
     in case stateCache w3 (getStateKey (channelId sub) (platform sub) (projectId sub)) of
          None \<Rightarrow>
            if forceSendAll
            then (updateState (channelId sub) (platform sub) (projectId sub) (version l)
                    (sendUpdate e (channelId sub) (platform sub) (projectId sub) l
                       (createState (channelId sub) (platform sub) (projectId sub) (version l) w3)),
                  Some \<lparr> res_sent = True, res_updated = True \<rparr>)
            else (createState (channelId sub) (platform sub) (projectId sub) (version l) w3,
                  Some \<lparr> res_sent = False, res_updated = False \<rparr>)
        | Some state \<Rightarrow>
            if forceSendAll
            then (updateState (channelId sub) (platform sub) (projectId sub) (version l)
                    (sendUpdate e (channelId sub) (platform sub) (projectId sub) l w3),
                  Some \<lparr> res_sent = True, res_updated = True \<rparr>)
            else if \<not> truthyStr (lastVersion state)
            then (updateState (channelId sub) (platform sub) (projectId sub) (version l) w3,
                  Some \<lparr> res_sent = False, res_updated = False \<rparr>)
            else if Some (version l) = lastVersion state
            then (w3, Some \<lparr> res_sent = False, res_updated = False \<rparr>)
            else (updateState (channelId sub) (platform sub) (projectId sub) (version l)
                    (sendUpdate e (channelId sub) (platform sub) (projectId sub) l w3),
                  Some \<lparr> res_sent = True, res_updated = True \<rparr>))"
  using assms
  by (auto simp add: checkOne_def getState_eq Let_def orStr_def loadConfig_frame split: option.splits)


lemma updateState_cache_key:
  "stateCache (updateState c p k lv w) (getStateKey c p k) = Some \<lparr> lastVersion = Some lv \<rparr>"
  by (simp add: updateState_cache)

text \<open>
  \<^verbatim>\<open>checkOnce\<close> runs the body once for every enumerated subscription, in the order
  of the enumeration, on the process as the subscriptions before it left it.
\<close>

lemma checkOnce_loop_append:
  "checkOnce_loop envs force i (xs @ ys) ws
     = checkOnce_loop envs force (i + length xs) ys (checkOnce_loop envs force i xs ws)"
  by (induction xs arbitrary: i ws) simp_all

lemma checkOnce_runs_body:
  assumes "truthyFlag (cfg_enabled (config (loadConfigFromFile w)))"
    and "getConfigSubs (config (loadConfigFromFile w)) c = before @ sub # after"
  shows "checkOnce envs c force w =
     (case checkOnce_loop envs force (Suc (length before)) after
             (checkOnce_body (envs (length before)) force sub
                (checkOnce_loop envs force 0 before (loadConfigFromFile w, stats0))) of
        (w2, st) \<Rightarrow> (w2, Some st))"
  using assms by (simp add: checkOnce_def Let_def checkOnce_loop_append)

lemma body_state_present:
  assumes notSkipped:
      "\<not> numLt (Fin (nowTest e - (case lastCheckMap w
           (getStateKey (channelId sub) (platform sub) (projectId sub)) of
              None \<Rightarrow> 0 | Some t \<Rightarrow> t))) (interval sub)"
    and fetch: "fetched e = Latest l"
    and state: "fst (getState (channelId sub) (platform sub) (projectId sub) w)
                  = Some \<lparr> lastVersion = Some v \<rparr>"
    and nonEmpty: "v \<noteq> []"
  shows "checkOnce_body e False sub (w, st) =
      (let w3 = loadStateFromFile (w\<lparr> lastCheckMap := (lastCheckMap w)
                   (getStateKey (channelId sub) (platform sub) (projectId sub) \<mapsto> nowSet e),
                 fetchLog := fetchLog w @ [(platform sub, projectId sub)] \<rparr>)
       in if version l = v
          then (w3, st\<lparr> checked := checked st + 1, noChange := noChange st + 1 \<rparr>)
          else (updateState (channelId sub) (platform sub) (projectId sub) (version l)
                  (sendUpdate e (channelId sub) (platform sub) (projectId sub) l w3),
                st\<lparr> checked := checked st + 1, updated := updated st + 1 \<rparr>))"
proof -
  let ?key = "getStateKey (channelId sub) (platform sub) (projectId sub)"
  let ?w3 = "loadStateFromFile (w\<lparr> lastCheckMap := (lastCheckMap w)(?key \<mapsto> nowSet e),
               fetchLog := fetchLog w @ [(platform sub, projectId sub)] \<rparr>)"
  have cache: "stateCache ?w3 ?key = Some \<lparr> lastVersion = Some v \<rparr>"
    using state by (simp add: getState_eq loadState_lastCheckMap_upd loadState_fetchLog_upd)
  show ?thesis
    using notSkipped fetch nonEmpty cache
    by (simp add: body_not_skipped Let_def truthyStr_def)
qed

lemma checkOne_state_present:
  assumes fetch: "fetched e = Latest l"
    and state: "fst (getState (channelId sub) (platform sub) (projectId sub) w)
                  = Some \<lparr> lastVersion = Some v \<rparr>"
    and nonEmpty: "v \<noteq> []"
  shows "checkOne e sub False w =
      (let w3 = loadStateFromFile ((loadConfigFromFile w)
                  \<lparr> fetchLog := fetchLog w @ [(platform sub, projectId sub)] \<rparr>)
       in if version l = v
          then (w3, Some \<lparr> res_sent = False, res_updated = False \<rparr>)
          else (updateState (channelId sub) (platform sub) (projectId sub) (version l)
                  (sendUpdate e (channelId sub) (platform sub) (projectId sub) l w3),
                Some \<lparr> res_sent = True, res_updated = True \<rparr>))"
proof -
  let ?key = "getStateKey (channelId sub) (platform sub) (projectId sub)"
  let ?v3 = "loadStateFromFile ((loadConfigFromFile w)
               \<lparr> fetchLog := fetchLog w @ [(platform sub, projectId sub)] \<rparr>)"
  have "stateCache ?v3 = stateCache (loadStateFromFile w)"
    by (rule loadState_cache_cong) (simp_all add: loadConfig_frame)
  then have cache: "stateCache ?v3 ?key = Some \<lparr> lastVersion = Some v \<rparr>"
    using state by (simp add: getState_eq)
  show ?thesis
    using nonEmpty cache
    by (simp add: checkOne_latest[OF fetch] Let_def truthyStr_def)
qed

text \<open>
  What a check leaves behind when it has called \<^verbatim>\<open>sendUpdate\<close> on \<^verbatim>\<open>x\<close> and
  then \<^verbatim>\<open>updateState\<close>.
\<close>

lemma send_then_update:
  fixes e :: env and sub :: sub and l :: latest and x :: world
  defines "y \<equiv> updateState (channelId sub) (platform sub) (projectId sub) (version l)
                 (sendUpdate e (channelId sub) (platform sub) (projectId sub) l x)"
    and "n \<equiv> \<lparr> n_channelId = channelId sub, n_platform = platform sub,
                n_projectId = projectId sub, n_latest = l \<rparr>"
  shows "sendCalls y = sendCalls x @ [n]"
    and "delivered y = (if notifyOk e then delivered x @ [n] else delivered x)"
    and "stateCache y (getStateKey (channelId sub) (platform sub) (projectId sub))
           = Some \<lparr> lastVersion = Some (version l) \<rparr>"
    and "stateWritable x \<Longrightarrow> \<not> saving x \<Longrightarrow> stateFile y = Object (cacheObject (stateCache y))"
  unfolding y_def n_def
  by (simp_all add: updateState_frame updateState_cache_key updateState_file_cache
      sendUpdate_calls sendUpdate_delivered sendUpdate_frame)

text \<open>
  C1. A non-forced check that has fetched the record \<^verbatim>\<open>l\<close> and finds the state
  \<^verbatim>\<open>v\<close>, a non-empty string, in \<^verbatim>\<open>checkOnce\<close> (when the subscription is not
  skipped) and in \<^verbatim>\<open>checkOne\<close>: \<^verbatim>\<open>sendUpdate\<close> is called (once, with \<^verbatim>\<open>l\<close>)
  exactly when \<^verbatim>\<open>version l\<close> differs from \<^verbatim>\<open>v\<close> as a string, whatever the other
  fields of \<^verbatim>\<open>l\<close> are, and it is delivered when moreover rendering and delivery do
  not throw. When the labels are equal nothing is sent, the check counts as
  \<^verbatim>\<open>noChange\<close>, and the cache and the state file stay as they are. When they
  differ the check counts as \<^verbatim>\<open>updated\<close> and the state becomes \<^verbatim>\<open>version l\<close>, in
  the cache and, when the write succeeds, in the file.
\<close>

theorem checkOnce_notifies_iff_version_differs:
  fixes e :: env and w :: world and sub :: sub and st :: stats and l :: latest and v :: jsstring
  defines "key \<equiv> getStateKey (channelId sub) (platform sub) (projectId sub)"
    and "n \<equiv> \<lparr> n_channelId = channelId sub, n_platform = platform sub,
                n_projectId = projectId sub, n_latest = l \<rparr>"
    and "w' \<equiv> fst (checkOnce_body e False sub (w, st))"
    and "st' \<equiv> snd (checkOnce_body e False sub (w, st))"
    and "w'' \<equiv> fst (checkOne e sub False w)"
  assumes fetch: "fetched e = Latest l"
    and state: "fst (getState (channelId sub) (platform sub) (projectId sub) w)
                  = Some \<lparr> lastVersion = Some v \<rparr>"
    and nonEmpty: "v \<noteq> []"
  shows "(\<not> numLt (Fin (nowTest e - (case lastCheckMap w key of None \<Rightarrow> 0 | Some t \<Rightarrow> t)))
               (interval sub) \<longrightarrow>
          sendCalls w' = (if version l = v then sendCalls w else sendCalls w @ [n])
          \<and> delivered w'
               = (if version l \<noteq> v \<and> notifyOk e then delivered w @ [n] else delivered w)
          \<and> updated st' = (if version l = v then updated st else updated st + 1)
          \<and> noChange st' = (if version l = v then noChange st + 1 else noChange st)
          \<and> (version l = v \<longrightarrow>
               stateCache w' = stateCache (loadStateFromFile w) \<and> stateFile w' = stateFile w)
          \<and> (version l \<noteq> v \<longrightarrow>
               stateCache w' key = Some \<lparr> lastVersion = Some (version l) \<rparr>
               \<and> (stateWritable w \<and> \<not> saving w \<longrightarrow>
                    stateFile w' = Object (cacheObject (stateCache w')))))
     \<and> snd (checkOne e sub False w)
         = Some \<lparr> res_sent = (version l \<noteq> v), res_updated = (version l \<noteq> v) \<rparr>
     \<and> sendCalls w'' = (if version l = v then sendCalls w else sendCalls w @ [n])
     \<and> delivered w''
          = (if version l \<noteq> v \<and> notifyOk e then delivered w @ [n] else delivered w)
     \<and> (version l = v \<longrightarrow>
          stateCache w'' = stateCache (loadStateFromFile w) \<and> stateFile w'' = stateFile w)
     \<and> (version l \<noteq> v \<longrightarrow>
          stateCache w'' key = Some \<lparr> lastVersion = Some (version l) \<rparr>
          \<and> (stateWritable w \<and> \<not> saving w \<longrightarrow>
               stateFile w'' = Object (cacheObject (stateCache w''))))"
proof -
  let ?key = "getStateKey (channelId sub) (platform sub) (projectId sub)"
  let ?w3 = "loadStateFromFile (w\<lparr> lastCheckMap := (lastCheckMap w)(?key \<mapsto> nowSet e),
               fetchLog := fetchLog w @ [(platform sub, projectId sub)] \<rparr>)"
  let ?v3 = "loadStateFromFile ((loadConfigFromFile w)
               \<lparr> fetchLog := fetchLog w @ [(platform sub, projectId sub)] \<rparr>)"
  have fw: "sendCalls ?w3 = sendCalls w" "delivered ?w3 = delivered w"
    "stateWritable ?w3 = stateWritable w" "saving ?w3 = saving w" "stateFile ?w3 = stateFile w"
    "stateCache ?w3 = stateCache (loadStateFromFile w)"
    by (simp_all add: loadState_frame loadState_lastCheckMap_upd loadState_fetchLog_upd)
  have cv: "stateCache ?v3 = stateCache (loadStateFromFile w)"
    by (rule loadState_cache_cong) (simp_all add: loadConfig_frame)
  have fv: "sendCalls ?v3 = sendCalls w" "delivered ?v3 = delivered w"
    "stateWritable ?v3 = stateWritable w" "saving ?v3 = saving w" "stateFile ?v3 = stateFile w"
    by (simp_all add: loadState_frame loadConfig_frame)
  have part1: "sendCalls w' = (if version l = v then sendCalls w else sendCalls w @ [n])
          \<and> delivered w'
               = (if version l \<noteq> v \<and> notifyOk e then delivered w @ [n] else delivered w)
          \<and> updated st' = (if version l = v then updated st else updated st + 1)
          \<and> noChange st' = (if version l = v then noChange st + 1 else noChange st)
          \<and> (version l = v \<longrightarrow>
               stateCache w' = stateCache (loadStateFromFile w) \<and> stateFile w' = stateFile w)
          \<and> (version l \<noteq> v \<longrightarrow>
               stateCache w' key = Some \<lparr> lastVersion = Some (version l) \<rparr>
               \<and> (stateWritable w \<and> \<not> saving w \<longrightarrow>
                    stateFile w' = Object (cacheObject (stateCache w'))))"
    if ns: "\<not> numLt (Fin (nowTest e - (case lastCheckMap w key of None \<Rightarrow> 0 | Some t \<Rightarrow> t)))
               (interval sub)"
  proof -
    note body = body_state_present[where st = st, OF ns[unfolded key_def] fetch state nonEmpty,
        unfolded Let_def]
    show ?thesis
      unfolding w'_def st'_def key_def n_def body
      using send_then_update[where e = e and sub = sub and l = l and x = ?w3]
      by (simp add: fw)
  qed
  note one = checkOne_state_present[OF fetch state nonEmpty, unfolded Let_def]
  have part2: "snd (checkOne e sub False w)
         = Some \<lparr> res_sent = (version l \<noteq> v), res_updated = (version l \<noteq> v) \<rparr>
     \<and> sendCalls w'' = (if version l = v then sendCalls w else sendCalls w @ [n])
     \<and> delivered w''
          = (if version l \<noteq> v \<and> notifyOk e then delivered w @ [n] else delivered w)
     \<and> (version l = v \<longrightarrow>
          stateCache w'' = stateCache (loadStateFromFile w) \<and> stateFile w'' = stateFile w)
     \<and> (version l \<noteq> v \<longrightarrow>
          stateCache w'' key = Some \<lparr> lastVersion = Some (version l) \<rparr>
          \<and> (stateWritable w \<and> \<not> saving w \<longrightarrow>
               stateFile w'' = Object (cacheObject (stateCache w''))))"
    unfolding w''_def key_def n_def one
    using send_then_update[where e = e and sub = sub and l = l and x = ?v3]
    by (simp add: fv cv)
  from part1 part2 show ?thesis by blast
qed

lemmas ex_defs = worldSeeded_def worldEmpty_def sub1_def key1_def envAt_def note1_def
  getStateKey_def stats0_def

theorem checkOnce_notifies_iff_version_differs_witness:
  "fst (getState (str ''c1'') MR (str ''abc123'') worldSeeded) = Some \<lparr> lastVersion = Some (str ''1.0.0'') \<rparr>
   \<and> sendCalls (fst (checkOnce_body (envAt 1793577600000 (Latest latest100b) True) False sub1
                      (worldSeeded, stats0))) = []
   \<and> stateCache (fst (checkOnce_body (envAt 1793577600000 (Latest latest100b) True) False sub1
                      (worldSeeded, stats0))) = stateCache worldSeeded
   \<and> noChange (snd (checkOnce_body (envAt 1793577600000 (Latest latest100b) True) False sub1
                      (worldSeeded, stats0))) = 1
   \<and> sendCalls (fst (checkOnce_body (envAt 1793577600000 (Latest latest110) True) False sub1
                      (worldSeeded, stats0))) = [note1 latest110]
   \<and> delivered (fst (checkOnce_body (envAt 1793577600000 (Latest latest110) True) False sub1
                      (worldSeeded, stats0))) = [note1 latest110]
   \<and> stateCache (fst (checkOnce_body (envAt 1793577600000 (Latest latest110) True) False sub1
                      (worldSeeded, stats0))) key1 = Some \<lparr> lastVersion = Some (str ''1.1.0'') \<rparr>
   \<and> updated (snd (checkOnce_body (envAt 1793577600000 (Latest latest110) True) False sub1
                      (worldSeeded, stats0))) = 1
   \<and> snd (checkOne (envAt 1793577600000 (Latest latest100b) True) sub1 False worldSeeded)
       = Some \<lparr> res_sent = False, res_updated = False \<rparr>
   \<and> sendCalls (fst (checkOne (envAt 1793577600000 (Latest latest100b) True) sub1 False
                      worldSeeded)) = []
   \<and> snd (checkOne (envAt 1793577600000 (Latest latest110) True) sub1 False worldSeeded)
       = Some \<lparr> res_sent = True, res_updated = True \<rparr>
   \<and> sendCalls (fst (checkOne (envAt 1793577600000 (Latest latest110) True) sub1 False
                      worldSeeded)) = [note1 latest110]
   \<and> stateCache (fst (checkOne (envAt 1793577600000 (Latest latest110) True) sub1 False
                      worldSeeded)) key1 = Some \<lparr> lastVersion = Some (str ''1.1.0'') \<rparr>"
proof -
  have h1: "\<not> numLt (Fin (nowTest (envAt 1793577600000 (Latest x) True)
              - (case lastCheckMap worldSeeded
                        (getStateKey (channelId sub1) (platform sub1) (projectId sub1)) of
                   None \<Rightarrow> 0 | Some t \<Rightarrow> t))) (interval sub1)" for x
    by (simp add: ex_defs)
  have h2: "fetched (envAt 1793577600000 (Latest x) True) = Latest x" for x
    by (simp add: envAt_def)
  have h3: "fst (getState (channelId sub1) (platform sub1) (projectId sub1) worldSeeded)
              = Some \<lparr> lastVersion = Some (str ''1.0.0'') \<rparr>"
    by (simp add: getState_eq loadStateFromFile_def ex_defs)
  have h4: "(str ''1.0.0'') \<noteq> []" by simp
  note same = checkOnce_notifies_iff_version_differs
    [where st = stats0, OF h2[of latest100b] h3 h4]
  note diff = checkOnce_notifies_iff_version_differs
    [where st = stats0, OF h2[of latest110] h3 h4]
  show ?thesis
    using same[THEN conjunct1, THEN mp, OF h1[of latest100b]] same[THEN conjunct2]
      diff[THEN conjunct1, THEN mp, OF h1[of latest110]] diff[THEN conjunct2] h3
    by (simp add: ex_defs latest100b_def latest110_def loadStateFromFile_def)
qed

text \<open>
  C3. A non-forced check that finds no state for the subscription and has fetched the
  record \<^verbatim>\<open>l\<close>: in \<^verbatim>\<open>checkOnce\<close> (when the subscription is not skipped)
  nothing is sent, the check counts as \<^verbatim>\<open>noChange\<close> and not as \<^verbatim>\<open>updated\<close>,
  and afterwards the state exists and is \<^verbatim>\<open>version l\<close>; in \<^verbatim>\<open>checkOne\<close>
  nothing is sent, the result is \<^verbatim>\<open>{ sent: false, updated: false }\<close>, and the
  state is \<^verbatim>\<open>version l\<close>. When the write succeeds the file holds the cache.
\<close>

theorem first_check_seeds_without_notifying:
  fixes e :: env and w :: world and sub :: sub and st :: stats and l :: latest
  defines "key \<equiv> getStateKey (channelId sub) (platform sub) (projectId sub)"
    and "w' \<equiv> fst (checkOnce_body e False sub (w, st))"
    and "st' \<equiv> snd (checkOnce_body e False sub (w, st))"
    and "w'' \<equiv> fst (checkOne e sub False w)"
  assumes fetch: "fetched e = Latest l"
    and absent: "fst (getState (channelId sub) (platform sub) (projectId sub) w) = None"
  shows "(\<not> numLt (Fin (nowTest e - (case lastCheckMap w key of None \<Rightarrow> 0 | Some t \<Rightarrow> t)))
               (interval sub) \<longrightarrow>
            sendCalls w' = sendCalls w \<and> delivered w' = delivered w
            \<and> noChange st' = noChange st + 1 \<and> updated st' = updated st
            \<and> stateCache w' key = Some \<lparr> lastVersion = Some (version l) \<rparr>
            \<and> (stateWritable w \<and> \<not> saving w \<longrightarrow>
                 stateFile w' = Object (cacheObject (stateCache w'))))
     \<and> snd (checkOne e sub False w) = Some \<lparr> res_sent = False, res_updated = False \<rparr>
     \<and> sendCalls w'' = sendCalls w \<and> delivered w'' = delivered w
     \<and> stateCache w'' key = Some \<lparr> lastVersion = Some (version l) \<rparr>
     \<and> (stateWritable w \<and> \<not> saving w \<longrightarrow>
          stateFile w'' = Object (cacheObject (stateCache w'')))"
proof -
  let ?key = "getStateKey (channelId sub) (platform sub) (projectId sub)"
  let ?w3 = "loadStateFromFile (w\<lparr> lastCheckMap := (lastCheckMap w)(?key \<mapsto> nowSet e),
               fetchLog := fetchLog w @ [(platform sub, projectId sub)] \<rparr>)"
  let ?v3 = "loadStateFromFile ((loadConfigFromFile w)
               \<lparr> fetchLog := fetchLog w @ [(platform sub, projectId sub)] \<rparr>)"
  let ?new = "\<lambda>x. createState (channelId sub) (platform sub) (projectId sub) (version l) x"
  have cacheW: "stateCache ?w3 ?key = None"
    using absent by (simp add: getState_eq loadState_lastCheckMap_upd loadState_fetchLog_upd)
  have "stateCache ?v3 = stateCache (loadStateFromFile w)"
    by (rule loadState_cache_cong) (simp_all add: loadConfig_frame)
  then have cacheV: "stateCache ?v3 ?key = None"
    using absent by (simp add: getState_eq)
  have one: "checkOne e sub False w = (?new ?v3, Some \<lparr> res_sent = False, res_updated = False \<rparr>)"
    using cacheV by (simp add: checkOne_latest[OF fetch] Let_def)
  have part2: "snd (checkOne e sub False w) = Some \<lparr> res_sent = False, res_updated = False \<rparr>
     \<and> sendCalls w'' = sendCalls w \<and> delivered w'' = delivered w
     \<and> stateCache w'' key = Some \<lparr> lastVersion = Some (version l) \<rparr>
     \<and> (stateWritable w \<and> \<not> saving w \<longrightarrow>
          stateFile w'' = Object (cacheObject (stateCache w'')))"
    unfolding w''_def key_def one
    by (simp add: createState_frame createState_cache_key createState_file_cache loadState_frame
        loadConfig_frame)
  have part1: "sendCalls w' = sendCalls w \<and> delivered w' = delivered w
            \<and> noChange st' = noChange st + 1 \<and> updated st' = updated st
            \<and> stateCache w' key = Some \<lparr> lastVersion = Some (version l) \<rparr>
            \<and> (stateWritable w \<and> \<not> saving w \<longrightarrow>
                 stateFile w' = Object (cacheObject (stateCache w')))"
    if ns: "\<not> numLt (Fin (nowTest e - (case lastCheckMap w key of None \<Rightarrow> 0 | Some t \<Rightarrow> t)))
               (interval sub)"
  proof -
    have body: "checkOnce_body e False sub (w, st)
        = (?new ?w3, st\<lparr> checked := checked st + 1, noChange := noChange st + 1 \<rparr>)"
      using ns cacheW fetch by (simp add: body_not_skipped key_def Let_def)
    show ?thesis
      unfolding w'_def st'_def key_def body
      by (simp add: createState_frame createState_cache_key createState_file_cache
          loadState_frame)
  qed
  from part1 part2 show ?thesis by blast
qed


theorem first_check_seeds_without_notifying_witness:
  "fst (getState (str ''c1'') MR (str ''abc123'') worldEmpty) = None
   \<and> sendCalls (fst (checkOnce_body (envAt 1793577600000 (Latest latest100) True) False sub1
                      (worldEmpty, stats0))) = []
   \<and> noChange (snd (checkOnce_body (envAt 1793577600000 (Latest latest100) True) False sub1
                      (worldEmpty, stats0))) = 1
   \<and> updated (snd (checkOnce_body (envAt 1793577600000 (Latest latest100) True) False sub1
                      (worldEmpty, stats0))) = 0
   \<and> stateCache (fst (checkOnce_body (envAt 1793577600000 (Latest latest100) True) False sub1
                      (worldEmpty, stats0))) key1 = Some \<lparr> lastVersion = Some (str ''1.0.0'') \<rparr>
   \<and> snd (checkOne (envAt 1793577600000 (Latest latest100) True) sub1 False worldEmpty)
       = Some \<lparr> res_sent = False, res_updated = False \<rparr>
   \<and> sendCalls (fst (checkOne (envAt 1793577600000 (Latest latest100) True) sub1 False
                      worldEmpty)) = []
   \<and> stateCache (fst (checkOne (envAt 1793577600000 (Latest latest100) True) sub1 False
                      worldEmpty)) key1 = Some \<lparr> lastVersion = Some (str ''1.0.0'') \<rparr>"
proof -
  have h1: "\<not> numLt (Fin (nowTest (envAt 1793577600000 (Latest latest100) True)
              - (case lastCheckMap worldEmpty
                        (getStateKey (channelId sub1) (platform sub1) (projectId sub1)) of
                   None \<Rightarrow> 0 | Some t \<Rightarrow> t))) (interval sub1)"
    by (simp add: ex_defs)
  have h2: "fetched (envAt 1793577600000 (Latest latest100) True) = Latest latest100"
    by (simp add: envAt_def)
  have h3: "fst (getState (channelId sub1) (platform sub1) (projectId sub1) worldEmpty) = None"
    by (simp add: getState_eq loadStateFromFile_def ex_defs)
  show ?thesis
    using first_check_seeds_without_notifying[where st = stats0, OF h2 h3] h1 h3
    by (simp add: ex_defs latest100_def)
qed

text \<open>
  C7. \<^verbatim>\<open>checkOne\<close> with \<^verbatim>\<open>forceSendAll\<close>, once the fetch has returned the record
  \<^verbatim>\<open>l\<close>: whatever the stored state is, \<^verbatim>\<open>sendUpdate\<close> is called exactly once
  (with \<^verbatim>\<open>l\<close>), the result is \<^verbatim>\<open>{ sent: true, updated: true }\<close> and the state
  becomes \<^verbatim>\<open>version l\<close>. When no state existed, the calls made are
  \<^verbatim>\<open>createState\<close>, \<^verbatim>\<open>sendUpdate\<close>, \<^verbatim>\<open>updateState\<close>, in this order and no
  others; in the process \<^verbatim>\<open>x\<close> on which \<^verbatim>\<open>sendUpdate\<close> is called the state exists
  already and is \<^verbatim>\<open>version l\<close> (in the cache and, when the write succeeds, in the
  file), and nothing has been sent yet. When a state existed, the calls made are
  \<^verbatim>\<open>sendUpdate\<close>, \<^verbatim>\<open>updateState\<close>, and \<^verbatim>\<open>createState\<close> is not called.
\<close>

theorem forced_check_always_notifies:
  fixes e :: env and w :: world and sub :: sub and l :: latest
  defines "key \<equiv> getStateKey (channelId sub) (platform sub) (projectId sub)"
    and "n \<equiv> \<lparr> n_channelId = channelId sub, n_platform = platform sub,
                n_projectId = projectId sub, n_latest = l \<rparr>"
    and "w' \<equiv> fst (checkOne e sub True w)"
    and "x \<equiv> createState (channelId sub) (platform sub) (projectId sub) (version l)
                (loadStateFromFile ((loadConfigFromFile w)
                   \<lparr> fetchLog := fetchLog w @ [(platform sub, projectId sub)] \<rparr>))"
  assumes fetch: "fetched e = Latest l"
  shows "snd (checkOne e sub True w) = Some \<lparr> res_sent = True, res_updated = True \<rparr>
     \<and> sendCalls w' = sendCalls w @ [n]
     \<and> delivered w' = (if notifyOk e then delivered w @ [n] else delivered w)
     \<and> stateCache w' key = Some \<lparr> lastVersion = Some (version l) \<rparr>
     \<and> (stateWritable w \<and> \<not> saving w \<longrightarrow> stateFile w' = Object (cacheObject (stateCache w')))
     \<and> (fst (getState (channelId sub) (platform sub) (projectId sub) w) = None \<longrightarrow>
          w' = updateState (channelId sub) (platform sub) (projectId sub) (version l)
                 (sendUpdate e (channelId sub) (platform sub) (projectId sub) l x)
          \<and> stateCache x key = Some \<lparr> lastVersion = Some (version l) \<rparr>
          \<and> (stateWritable w \<and> \<not> saving w \<longrightarrow> stateFile x = Object (cacheObject (stateCache x)))
          \<and> sendCalls x = sendCalls w
          \<and> delivered x = delivered w
          \<and> calls x = calls w @ [CreateState key (version l)]
          \<and> calls w' = calls w @ [CreateState key (version l), SendUpdate n,
                                   UpdateState key (version l)])
     \<and> (fst (getState (channelId sub) (platform sub) (projectId sub) w) \<noteq> None \<longrightarrow>
          calls w' = calls w @ [SendUpdate n, UpdateState key (version l)])"
proof -
  let ?key = "getStateKey (channelId sub) (platform sub) (projectId sub)"
  let ?n = "\<lparr> n_channelId = channelId sub, n_platform = platform sub,
              n_projectId = projectId sub, n_latest = l \<rparr>"
  let ?v3 = "loadStateFromFile ((loadConfigFromFile w)
               \<lparr> fetchLog := fetchLog w @ [(platform sub, projectId sub)] \<rparr>)"
  let ?send = "\<lambda>x. updateState (channelId sub) (platform sub) (projectId sub) (version l)
                 (sendUpdate e (channelId sub) (platform sub) (projectId sub) l x)"
  let ?create = "createState (channelId sub) (platform sub) (projectId sub) (version l) ?v3"
  have frame: "sendCalls ?v3 = sendCalls w" "delivered ?v3 = delivered w"
    "stateWritable ?v3 = stateWritable w" "saving ?v3 = saving w"
    by (simp_all add: loadState_frame loadConfig_frame)
  have trace: "calls ?v3 = calls w"
    by (simp add: loadState_frame loadConfig_frame)
  have cache: "stateCache ?v3 = stateCache (loadStateFromFile w)"
    by (rule loadState_cache_cong) (simp_all add: loadConfig_frame)
  have sent: "calls (?send y) = calls y @ [SendUpdate ?n, UpdateState ?key (version l)]" for y
    by (simp add: updateState_trace sendUpdate_trace)
  have gen: "snd (?send y, Some \<lparr> res_sent = True, res_updated = True \<rparr>)
        = Some \<lparr> res_sent = True, res_updated = True \<rparr>
     \<and> sendCalls (?send y) = sendCalls w @ [?n]
     \<and> delivered (?send y) = (if notifyOk e then delivered w @ [?n] else delivered w)
     \<and> stateCache (?send y) ?key = Some \<lparr> lastVersion = Some (version l) \<rparr>
     \<and> (stateWritable w \<and> \<not> saving w \<longrightarrow>
          stateFile (?send y) = Object (cacheObject (stateCache (?send y))))"
    if "sendCalls y = sendCalls w" "delivered y = delivered w"
      "stateWritable y = stateWritable w" "saving y = saving w" for y
    using that
    by (simp add: updateState_frame updateState_cache_key updateState_file_cache
        sendUpdate_calls sendUpdate_delivered sendUpdate_frame)
  show ?thesis
  proof (cases "stateCache ?v3 ?key")
    case None
    have one: "checkOne e sub True w = (?send ?create, Some \<lparr> res_sent = True, res_updated = True \<rparr>)"
      using None by (simp add: checkOne_latest[OF fetch] Let_def)
    have absent: "fst (getState (channelId sub) (platform sub) (projectId sub) w) = None"
      using None cache by (simp add: getState_eq)
    have fr: "sendCalls ?create = sendCalls w" "delivered ?create = delivered w"
      "stateWritable ?create = stateWritable w" "saving ?create = saving w"
      by (simp_all add: createState_frame frame)
    have created: "stateCache ?create ?key = Some \<lparr> lastVersion = Some (version l) \<rparr>"
      by (rule createState_cache_key)
    have written: "stateWritable w \<and> \<not> saving w \<longrightarrow>
        stateFile ?create = Object (cacheObject (stateCache ?create))"
      using createState_file_cache[where w = ?v3] by (simp add: frame)
    have order: "calls ?create = calls w @ [CreateState ?key (version l)]"
      "calls (?send ?create) = calls w @ [CreateState ?key (version l), SendUpdate ?n,
          UpdateState ?key (version l)]"
      by (simp_all add: sent createState_trace trace)
    show ?thesis
      unfolding w'_def key_def n_def x_def one
      using gen[OF fr] created written order by (simp add: absent fr)
  next
    case (Some state)
    have one: "checkOne e sub True w = (?send ?v3, Some \<lparr> res_sent = True, res_updated = True \<rparr>)"
      using Some by (simp add: checkOne_latest[OF fetch] Let_def)
    have present: "(fst (getState (channelId sub) (platform sub) (projectId sub) w) = None) = False"
      using Some cache by (simp add: getState_eq)
    have order: "calls (?send ?v3) = calls w @ [SendUpdate ?n, UpdateState ?key (version l)]"
      by (simp add: sent trace)
    show ?thesis
      unfolding w'_def key_def n_def x_def one
      using gen[OF frame] order by (simp add: present)
  qed
qed

theorem forced_check_always_notifies_witness:
  "fst (getState (str ''c1'') MR (str ''abc123'') worldSeeded)
     = Some \<lparr> lastVersion = Some (version latest100) \<rparr>
   \<and> snd (checkOne (envAt 1793577600000 (Latest latest100) True) sub1 True worldSeeded)
       = Some \<lparr> res_sent = True, res_updated = True \<rparr>
   \<and> sendCalls (fst (checkOne (envAt 1793577600000 (Latest latest100) True) sub1 True
                      worldSeeded)) = [note1 latest100]
   \<and> stateCache (fst (checkOne (envAt 1793577600000 (Latest latest100) True) sub1 True
                      worldSeeded)) key1 = Some \<lparr> lastVersion = Some (str ''1.0.0'') \<rparr>
   \<and> calls (fst (checkOne (envAt 1793577600000 (Latest latest100) True) sub1 True worldSeeded))
       = [SendUpdate (note1 latest100), UpdateState key1 (str ''1.0.0'')]
   \<and> fst (getState (str ''c1'') MR (str ''abc123'') worldEmpty) = None
   \<and> sendCalls (fst (checkOne (envAt 1793577600000 (Latest latest100) True) sub1 True
                      worldEmpty)) = [note1 latest100]
   \<and> stateCache (fst (checkOne (envAt 1793577600000 (Latest latest100) True) sub1 True
                      worldEmpty)) key1 = Some \<lparr> lastVersion = Some (str ''1.0.0'') \<rparr>
   \<and> stateCache (createState (str ''c1'') MR (str ''abc123'') (str ''1.0.0'')
        (loadStateFromFile ((loadConfigFromFile worldEmpty)
           \<lparr> fetchLog := fetchLog worldEmpty @ [(MR, str ''abc123'')] \<rparr>))) key1
       = Some \<lparr> lastVersion = Some (str ''1.0.0'') \<rparr>
   \<and> sendCalls (createState (str ''c1'') MR (str ''abc123'') (str ''1.0.0'')
        (loadStateFromFile ((loadConfigFromFile worldEmpty)
           \<lparr> fetchLog := fetchLog worldEmpty @ [(MR, str ''abc123'')] \<rparr>))) = []
   \<and> calls (fst (checkOne (envAt 1793577600000 (Latest latest100) True) sub1 True worldEmpty))
       = [CreateState key1 (str ''1.0.0''), SendUpdate (note1 latest100),
          UpdateState key1 (str ''1.0.0'')]"
proof -
  have h: "fetched (envAt 1793577600000 (Latest latest100) True) = Latest latest100"
    by (simp add: envAt_def)
  have s1: "fst (getState (channelId sub1) (platform sub1) (projectId sub1) worldSeeded)
              = Some \<lparr> lastVersion = Some (version latest100) \<rparr>"
    by (simp add: getState_eq loadStateFromFile_def ex_defs latest100_def)
  then have s1': "fst (getState (channelId sub1) (platform sub1) (projectId sub1) worldSeeded)
              \<noteq> None"
    by simp
  have s2: "fst (getState (channelId sub1) (platform sub1) (projectId sub1) worldEmpty) = None"
    by (simp add: getState_eq loadStateFromFile_def ex_defs)
  note a = forced_check_always_notifies[where sub = sub1 and w = worldSeeded, OF h]
  note b = forced_check_always_notifies[where sub = sub1 and w = worldEmpty, OF h]
  note a7 = a[THEN conjunct2, THEN conjunct2, THEN conjunct2, THEN conjunct2, THEN conjunct2,
      THEN conjunct2, THEN mp, OF s1']
  note b6 = b[THEN conjunct2, THEN conjunct2, THEN conjunct2, THEN conjunct2, THEN conjunct2,
      THEN conjunct1, THEN mp, OF s2]
  show ?thesis
    using a[THEN conjunct1] a[THEN conjunct2, THEN conjunct1]
      a[THEN conjunct2, THEN conjunct2, THEN conjunct2, THEN conjunct1] a7
      b[THEN conjunct2, THEN conjunct1]
      b[THEN conjunct2, THEN conjunct2, THEN conjunct2, THEN conjunct1]
      b6[THEN conjunct2, THEN conjunct1]
      b6[THEN conjunct2, THEN conjunct2, THEN conjunct2, THEN conjunct1]
      b6[THEN conjunct2, THEN conjunct2, THEN conjunct2, THEN conjunct2, THEN conjunct2,
         THEN conjunct2]
      s1 s2
    by (simp add: ex_defs latest100_def)
qed

lemma saveState_warn: "x \<in> set (warnLog w) \<Longrightarrow> x \<in> set (warnLog (saveStateToFile w))"
  by (simp add: saveStateToFile_def)

lemma updateState_warn:
  "x \<in> set (warnLog w) \<Longrightarrow> x \<in> set (warnLog (updateState c p k lv w))"
  by (simp add: updateState_def Let_def saveState_warn loadState_frame)

lemma sendUpdate_warn:
  "\<not> notifyOk e \<Longrightarrow> NotifyFailed p k \<in> set (warnLog (sendUpdate e c p k l w))"
  by (simp add: sendUpdate_def Let_def)

lemma body_no_send_when_state_is_latest:
  assumes fetch: "fetched e = Latest l"
    and cache: "stateCache (loadStateFromFile w)
                  (getStateKey (channelId sub) (platform sub) (projectId sub))
                = Some \<lparr> lastVersion = Some (version l) \<rparr>"
  shows "sendCalls (fst (checkOnce_body e False sub (w, st))) = sendCalls w
       \<and> updated (snd (checkOnce_body e False sub (w, st))) = updated st"
proof (cases "numLt (Fin (nowTest e - (case lastCheckMap w
           (getStateKey (channelId sub) (platform sub) (projectId sub)) of
              None \<Rightarrow> 0 | Some t \<Rightarrow> t))) (interval sub)")
  case True
  then show ?thesis by (simp add: body_skipped)
next
  case False
  let ?key = "getStateKey (channelId sub) (platform sub) (projectId sub)"
  let ?w3 = "loadStateFromFile (w\<lparr> lastCheckMap := (lastCheckMap w)(?key \<mapsto> nowSet e),
               fetchLog := fetchLog w @ [(platform sub, projectId sub)] \<rparr>)"
  have c: "stateCache ?w3 ?key = Some \<lparr> lastVersion = Some (version l) \<rparr>"
    using cache by (simp add: loadState_lastCheckMap_upd loadState_fetchLog_upd)
  from False have ns: "False \<or> \<not> numLt (Fin (nowTest e - (case lastCheckMap w
           (getStateKey (channelId sub) (platform sub) (projectId sub)) of
              None \<Rightarrow> 0 | Some t \<Rightarrow> t))) (interval sub)" by simp
  show ?thesis
    unfolding body_not_skipped[OF ns fetch] Let_def
    using c by (simp add: updateState_frame loadState_frame loadState_lastCheckMap_upd
        loadState_fetchLog_upd)
qed

text \<open>
  C2, as the claim states it, fails. \<^verbatim>\<open>sendUpdate\<close> catches every exception of
  rendering and delivery itself, so \<^verbatim>\<open>checkOnce\<close> goes on to \<^verbatim>\<open>updateState\<close>:
  with the state \<^verbatim>\<open>1.0.0\<close>, the fetched version \<^verbatim>\<open>1.1.0\<close> and a notification
  that throws, nothing is delivered, the failure is logged, and the state is
  \<^verbatim>\<open>1.1.0\<close> afterwards. Ten minutes later the same fetch result is no change:
  \<^verbatim>\<open>sendUpdate\<close> is not called again and nothing is ever delivered.
\<close>

theorem failed_notification_counterexample:
  "fst (getState (str ''c1'') MR (str ''abc123'') worldSeeded) = Some \<lparr> lastVersion = Some (str ''1.0.0'') \<rparr>
   \<and> delivered (fst (checkOnce_body (envAt 1793577600000 (Latest latest110) False) False sub1
                      (worldSeeded, stats0))) = []
   \<and> warnLog (fst (checkOnce_body (envAt 1793577600000 (Latest latest110) False) False sub1
                      (worldSeeded, stats0))) = [NotifyFailed MR (str ''abc123'')]
   \<and> stateCache (fst (checkOnce_body (envAt 1793577600000 (Latest latest110) False) False sub1
                      (worldSeeded, stats0))) key1 = Some \<lparr> lastVersion = Some (str ''1.1.0'') \<rparr>
   \<and> sendCalls (fst (checkOnce_body (envAt 1793578200000 (Latest latest110) True) False sub1
                   (checkOnce_body (envAt 1793577600000 (Latest latest110) False) False sub1
                      (worldSeeded, stats0)))) = [note1 latest110]
   \<and> delivered (fst (checkOnce_body (envAt 1793578200000 (Latest latest110) True) False sub1
                   (checkOnce_body (envAt 1793577600000 (Latest latest110) False) False sub1
                      (worldSeeded, stats0)))) = []"
  by (simp add: checkOnce_body_def getState_def updateState_def createState_def
      loadStateFromFile_def saveStateToFile_def sendUpdate_def Let_def ex_defs latest110_def
      truthyStr_def orStr_def cacheObject_def)


text \<open>
  C2, amended. In the non-forced path, when the version label differs from the stored
  one and rendering or delivery throws, the exception is caught and logged inside
  \<^verbatim>\<open>sendUpdate\<close>, nothing is delivered, and the state is advanced to the fetched
  version all the same. In \<^verbatim>\<open>checkOnce\<close> (when the subscription is not skipped)
  the check counts as \<^verbatim>\<open>updated\<close> and not as \<^verbatim>\<open>failed\<close>, and a later check
  that fetches the same version label does not call \<^verbatim>\<open>sendUpdate\<close> again; in
  \<^verbatim>\<open>checkOne\<close> the result is \<^verbatim>\<open>{ sent: true, updated: true }\<close>.
\<close>

theorem failed_notification_still_advances_state:
  fixes e e2 :: env and w :: world and sub :: sub and st :: stats and l l2 :: latest
    and v :: jsstring
  defines "key \<equiv> getStateKey (channelId sub) (platform sub) (projectId sub)"
    and "n \<equiv> \<lparr> n_channelId = channelId sub, n_platform = platform sub,
                n_projectId = projectId sub, n_latest = l \<rparr>"
    and "w' \<equiv> fst (checkOnce_body e False sub (w, st))"
    and "st' \<equiv> snd (checkOnce_body e False sub (w, st))"
    and "w'' \<equiv> fst (checkOne e sub False w)"
  assumes fetch: "fetched e = Latest l"
    and state: "fst (getState (channelId sub) (platform sub) (projectId sub) w)
                  = Some \<lparr> lastVersion = Some v \<rparr>"
    and nonEmpty: "v \<noteq> []"
    and differs: "version l \<noteq> v"
    and throws: "\<not> notifyOk e"
    and again: "fetched e2 = Latest l2" "version l2 = version l"
  shows "(\<not> numLt (Fin (nowTest e - (case lastCheckMap w key of None \<Rightarrow> 0 | Some t \<Rightarrow> t)))
               (interval sub) \<longrightarrow>
          sendCalls w' = sendCalls w @ [n]
          \<and> delivered w' = delivered w
          \<and> NotifyFailed (platform sub) (projectId sub) \<in> set (warnLog w')
          \<and> stateCache w' key = Some \<lparr> lastVersion = Some (version l) \<rparr>
          \<and> updated st' = updated st + 1
          \<and> failed st' = failed st
          \<and> sendCalls (fst (checkOnce_body e2 False sub (w', st'))) = sendCalls w'
          \<and> updated (snd (checkOnce_body e2 False sub (w', st'))) = updated st')
     \<and> snd (checkOne e sub False w) = Some \<lparr> res_sent = True, res_updated = True \<rparr>
     \<and> sendCalls w'' = sendCalls w @ [n]
     \<and> delivered w'' = delivered w
     \<and> NotifyFailed (platform sub) (projectId sub) \<in> set (warnLog w'')
     \<and> stateCache w'' key = Some \<lparr> lastVersion = Some (version l) \<rparr>"
proof -
  let ?key = "getStateKey (channelId sub) (platform sub) (projectId sub)"
  let ?w3 = "loadStateFromFile (w\<lparr> lastCheckMap := (lastCheckMap w)(?key \<mapsto> nowSet e),
               fetchLog := fetchLog w @ [(platform sub, projectId sub)] \<rparr>)"
  let ?v3 = "loadStateFromFile ((loadConfigFromFile w)
               \<lparr> fetchLog := fetchLog w @ [(platform sub, projectId sub)] \<rparr>)"
  let ?upd = "\<lambda>x. updateState (channelId sub) (platform sub) (projectId sub) (version l)
               (sendUpdate e (channelId sub) (platform sub) (projectId sub) l x)"
  have wn: "NotifyFailed (platform sub) (projectId sub) \<in> set (warnLog (?upd x))" for x
    using throws by (intro updateState_warn sendUpdate_warn)
  have fw: "sendCalls ?w3 = sendCalls w" "delivered ?w3 = delivered w"
    by (simp_all add: loadState_frame loadState_lastCheckMap_upd loadState_fetchLog_upd)
  have fv: "sendCalls ?v3 = sendCalls w" "delivered ?v3 = delivered w"
    by (simp_all add: loadState_frame loadConfig_frame)
  have part1: "sendCalls w' = sendCalls w @ [n]
          \<and> delivered w' = delivered w
          \<and> NotifyFailed (platform sub) (projectId sub) \<in> set (warnLog w')
          \<and> stateCache w' key = Some \<lparr> lastVersion = Some (version l) \<rparr>
          \<and> updated st' = updated st + 1
          \<and> failed st' = failed st
          \<and> sendCalls (fst (checkOnce_body e2 False sub (w', st'))) = sendCalls w'
          \<and> updated (snd (checkOnce_body e2 False sub (w', st'))) = updated st'"
    if ns: "\<not> numLt (Fin (nowTest e - (case lastCheckMap w key of None \<Rightarrow> 0 | Some t \<Rightarrow> t)))
               (interval sub)"
  proof -
    have body: "checkOnce_body e False sub (w, st)
               = (?upd ?w3, st\<lparr> checked := checked st + 1, updated := updated st + 1 \<rparr>)"
      using body_state_present[where st = st, OF ns[unfolded key_def] fetch state nonEmpty]
        differs
      by (simp add: Let_def)
    have ld: "loadStateFromFile (?upd ?w3) = ?upd ?w3"
      by (rule loadState_loaded) (simp add: updateState_frame)
    have c2: "stateCache (loadStateFromFile (?upd ?w3)) ?key
                = Some \<lparr> lastVersion = Some (version l2) \<rparr>"
      using again by (simp add: ld updateState_cache_key)
    note nxt = body_no_send_when_state_is_latest[OF again(1) c2]
    show ?thesis
      unfolding w'_def st'_def key_def n_def body
      using send_then_update(1-3)[where e = e and sub = sub and l = l and x = ?w3] wn[of ?w3]
        nxt throws
      by (simp add: fw)
  qed
  have one: "checkOne e sub False w = (?upd ?v3, Some \<lparr> res_sent = True, res_updated = True \<rparr>)"
    using checkOne_state_present[OF fetch state nonEmpty] differs by (simp add: Let_def)
  have part2: "snd (checkOne e sub False w) = Some \<lparr> res_sent = True, res_updated = True \<rparr>
     \<and> sendCalls w'' = sendCalls w @ [n]
     \<and> delivered w'' = delivered w
     \<and> NotifyFailed (platform sub) (projectId sub) \<in> set (warnLog w'')
     \<and> stateCache w'' key = Some \<lparr> lastVersion = Some (version l) \<rparr>"
    unfolding w''_def key_def n_def one
    using send_then_update(1-3)[where e = e and sub = sub and l = l and x = ?v3] wn[of ?v3]
      throws
    by (simp add: fv)
  from part1 part2 show ?thesis by blast
qed

theorem failed_notification_still_advances_state_witness:
  "fst (getState (str ''c1'') MR (str ''abc123'') worldSeeded) = Some \<lparr> lastVersion = Some (str ''1.0.0'') \<rparr>
   \<and> version latest110 \<noteq> (str ''1.0.0'')
   \<and> \<not> notifyOk (envAt 1793577600000 (Latest latest110) False)
   \<and> delivered (fst (checkOnce_body (envAt 1793577600000 (Latest latest110) False) False sub1
                      (worldSeeded, stats0))) = []
   \<and> stateCache (fst (checkOnce_body (envAt 1793577600000 (Latest latest110) False) False sub1
                      (worldSeeded, stats0))) key1 = Some \<lparr> lastVersion = Some (str ''1.1.0'') \<rparr>
   \<and> updated (snd (checkOnce_body (envAt 1793577600000 (Latest latest110) False) False sub1
                      (worldSeeded, stats0))) = 1
   \<and> sendCalls (fst (checkOnce_body (envAt 1793578200000 (Latest latest110) True) False sub1
                   (checkOnce_body (envAt 1793577600000 (Latest latest110) False) False sub1
                      (worldSeeded, stats0)))) = [note1 latest110]
   \<and> snd (checkOne (envAt 1793577600000 (Latest latest110) False) sub1 False worldSeeded)
       = Some \<lparr> res_sent = True, res_updated = True \<rparr>
   \<and> delivered (fst (checkOne (envAt 1793577600000 (Latest latest110) False) sub1 False
                      worldSeeded)) = []
   \<and> stateCache (fst (checkOne (envAt 1793577600000 (Latest latest110) False) sub1 False
                      worldSeeded)) key1 = Some \<lparr> lastVersion = Some (str ''1.1.0'') \<rparr>"
proof -
  have h1: "\<not> numLt (Fin (nowTest (envAt 1793577600000 (Latest latest110) False)
              - (case lastCheckMap worldSeeded
                        (getStateKey (channelId sub1) (platform sub1) (projectId sub1)) of
                   None \<Rightarrow> 0 | Some t \<Rightarrow> t))) (interval sub1)"
    by (simp add: ex_defs)
  have h2: "fetched (envAt 1793577600000 (Latest latest110) False) = Latest latest110"
    by (simp add: envAt_def)
  have h3: "fst (getState (channelId sub1) (platform sub1) (projectId sub1) worldSeeded)
              = Some \<lparr> lastVersion = Some (str ''1.0.0'') \<rparr>"
    by (simp add: getState_eq loadStateFromFile_def ex_defs)
  have h4: "(str ''1.0.0'') \<noteq> []" by simp
  have h5: "version latest110 \<noteq> (str ''1.0.0'')" by (simp add: latest110_def)
  have h6: "\<not> notifyOk (envAt 1793577600000 (Latest latest110) False)"
    by (simp add: envAt_def)
  have h7: "fetched (envAt 1793578200000 (Latest latest110) True) = Latest latest110"
    by (simp add: envAt_def)
  have h8: "version latest110 = version latest110" by simp
  note t = failed_notification_still_advances_state
    [where st = stats0, OF h2 h3 h4 h5 h6 h7 h8]
  show ?thesis
    using t[THEN conjunct1, THEN mp, OF h1] t[THEN conjunct2] h3 h5 h6
    by (simp add: ex_defs latest110_def)
qed

text \<open>
  C5, as the claim states it, fails in one part: a subscription without a recorded
  time stamp is not always eligible at once. \<^verbatim>\<open>lastCheckMap.get(key) || 0\<close> reads the
  missing stamp as time \<^verbatim>\<open>0\<close>, and the check is skipped while
  \<^verbatim>\<open>Date.now() < sub.interval\<close>. With a stored interval of \<^verbatim>\<open>2 * 10^12\<close> ms and
  the clock at \<^verbatim>\<open>1793577600000\<close> the first pass of \<^verbatim>\<open>checkOnce\<close> counts the
  subscription as skipped and fetches nothing.
\<close>

theorem absent_timestamp_counterexample:
  "lastCheckMap worldLong key1 = None
   \<and> getConfigSubs (config worldLong) None = [subLong]
   \<and> checkOnce (\<lambda>i. envAt 1793577600000 (Latest latest100) True) None False worldLong
       = (worldLong, Some (stats0\<lparr> skipped := 1 \<rparr>))
   \<and> fetchLog (fst (checkOnce (\<lambda>i. envAt 1793577600000 (Latest latest100) True) None False
                       worldLong)) = []"
proof -
  have subs: "getConfigSubs (config worldLong) None = [subLong]"
    by (simp add: worldLong_def worldEmpty_def cfgLong_def subLong_def getConfigSubs_def
        normalizePlatform_def trim_examples truthyStr_def orNum_def)
  have body: "checkOnce_body (envAt 1793577600000 (Latest latest100) True) False subLong
                (worldLong, stats0) = (worldLong, stats0\<lparr> skipped := 1 \<rparr>)"
    by (rule trans[OF body_skipped])
       (simp_all add: worldLong_def worldEmpty_def subLong_def envAt_def stats0_def)
  have once: "checkOnce (\<lambda>i. envAt 1793577600000 (Latest latest100) True) None False worldLong
       = (worldLong, Some (stats0\<lparr> skipped := 1 \<rparr>))"
    unfolding checkOnce_def
    by (simp add: Let_def subs body loadConfigFromFile_def truthyFlag_def)
       (simp add: worldLong_def worldEmpty_def cfgLong_def)
  show ?thesis
    unfolding once using subs by (simp add: worldLong_def worldEmpty_def)
qed


text \<open>
  C5, amended. With the interval \<^verbatim>\<open>I\<close> and the recorded time stamp \<^verbatim>\<open>t0\<close>, a
  non-forced check before \<^verbatim>\<open>t0 + I\<close> is counted as skipped and leaves the process
  as it is (no fetch). A subscription without a recorded time stamp is treated as
  checked at time \<^verbatim>\<open>0\<close>: it is fetched when \<^verbatim>\<open>I <= Date.now()\<close> and skipped
  otherwise. A forced check fetches whatever the time stamp is. Every check that is
  not counted as skipped, forced or not and whatever the fetch then does, has stored
  the current time as the time stamp and has gone on to the fetch.
\<close>

theorem eligibility_gating:
  fixes e :: env and w :: world and sub :: sub and st :: stats and I t0 :: int
    and force :: bool
  defines "key \<equiv> getStateKey (channelId sub) (platform sub) (projectId sub)"
    and "r \<equiv> checkOnce_body e False sub (w, st)"
    and "f \<equiv> checkOnce_body e True sub (w, st)"
    and "g \<equiv> checkOnce_body e force sub (w, st)"
  shows "(interval sub = Fin I \<longrightarrow> lastCheckMap w key = Some t0 \<longrightarrow> nowTest e < t0 + I \<longrightarrow>
            r = (w, st\<lparr> skipped := skipped st + 1 \<rparr>))
     \<and> (interval sub = Fin I \<longrightarrow> lastCheckMap w key = None \<longrightarrow>
            (if I \<le> nowTest e
             then fetchLog (fst r) = fetchLog w @ [(platform sub, projectId sub)]
                  \<and> lastCheckMap (fst r) key = Some (nowSet e)
             else r = (w, st\<lparr> skipped := skipped st + 1 \<rparr>)))
     \<and> (fetchLog (fst f) = fetchLog w @ [(platform sub, projectId sub)]
          \<and> lastCheckMap (fst f) key = Some (nowSet e))
     \<and> (skipped (snd g) = skipped st \<longrightarrow>
            fetchLog (fst g) = fetchLog w @ [(platform sub, projectId sub)]
            \<and> lastCheckMap (fst g) key = Some (nowSet e))"
proof -
  let ?cond = "\<lambda>b. b \<or> \<not> numLt (Fin (nowTest e - (case lastCheckMap w
        (getStateKey (channelId sub) (platform sub) (projectId sub)) of None \<Rightarrow> 0 | Some t \<Rightarrow> t)))
        (interval sub)"
  have p1: "interval sub = Fin I \<longrightarrow> lastCheckMap w key = Some t0 \<longrightarrow> nowTest e < t0 + I \<longrightarrow>
            r = (w, st\<lparr> skipped := skipped st + 1 \<rparr>)"
    unfolding r_def key_def by (intro impI body_skipped) simp_all
  have p2: "interval sub = Fin I \<longrightarrow> lastCheckMap w key = None \<longrightarrow>
            (if I \<le> nowTest e
             then fetchLog (fst r) = fetchLog w @ [(platform sub, projectId sub)]
                  \<and> lastCheckMap (fst r) key = Some (nowSet e)
             else r = (w, st\<lparr> skipped := skipped st + 1 \<rparr>))"
  proof (intro impI)
    assume a: "interval sub = Fin I" "lastCheckMap w key = None"
    show "if I \<le> nowTest e
             then fetchLog (fst r) = fetchLog w @ [(platform sub, projectId sub)]
                  \<and> lastCheckMap (fst r) key = Some (nowSet e)
             else r = (w, st\<lparr> skipped := skipped st + 1 \<rparr>)"
    proof (cases "I \<le> nowTest e")
      case True
      with a have "?cond False" by (simp add: key_def)
      from body_checked(1,2)[OF this] True show ?thesis
        by (simp add: r_def key_def)
    next
      case False
      with a have "r = (w, st\<lparr> skipped := skipped st + 1 \<rparr>)"
        unfolding r_def key_def by (intro body_skipped) simp_all
      with False show ?thesis by simp
    qed
  qed
  have "?cond True" by simp
  from body_checked(1,2)[OF this]
  have p3: "fetchLog (fst f) = fetchLog w @ [(platform sub, projectId sub)]
          \<and> lastCheckMap (fst f) key = Some (nowSet e)"
    by (simp add: f_def key_def)
  have p4: "skipped (snd g) = skipped st \<longrightarrow>
            fetchLog (fst g) = fetchLog w @ [(platform sub, projectId sub)]
            \<and> lastCheckMap (fst g) key = Some (nowSet e)"
  proof
    assume s: "skipped (snd g) = skipped st"
    have "?cond force"
    proof (rule ccontr)
      assume "\<not> ?cond force"
      then have "checkOnce_body e force sub (w, st) = (w, st\<lparr> skipped := skipped st + 1 \<rparr>)"
        by (intro body_skipped) simp_all
      with s show False by (simp add: g_def)
    qed
    from body_checked(1,2)[OF this]
    show "fetchLog (fst g) = fetchLog w @ [(platform sub, projectId sub)]
            \<and> lastCheckMap (fst g) key = Some (nowSet e)"
      by (simp add: g_def key_def)
  qed
  show ?thesis by (rule conjI[OF p1 conjI[OF p2 conjI[OF p3 p4]]])
qed


theorem eligibility_gating_witness:
  "interval sub1 = Fin 600000
   \<and> lastCheckMap worldStamped key1 = Some 1793577600000
   \<and> checkOnce_body (envAt 1793577660000 (Latest latest110) True) False sub1
        (worldStamped, stats0) = (worldStamped, stats0\<lparr> skipped := 1 \<rparr>)
   \<and> lastCheckMap worldSeeded key1 = None
   \<and> fetchLog (fst (checkOnce_body (envAt 1793577660000 (Latest latest110) True) False sub1
                      (worldSeeded, stats0))) = [(MR, (str ''abc123''))]
   \<and> lastCheckMap (fst (checkOnce_body (envAt 1793577660000 (Latest latest110) True) False sub1
                      (worldSeeded, stats0))) key1 = Some 1793577660000
   \<and> fetchLog (fst (checkOnce_body (envAt 1793577660000 (Latest latest110) True) True sub1
                      (worldStamped, stats0))) = [(MR, (str ''abc123''))]
   \<and> lastCheckMap (fst (checkOnce_body (envAt 1793577660000 (Latest latest110) True) True sub1
                      (worldStamped, stats0))) key1 = Some 1793577660000
   \<and> skipped (snd (checkOnce_body (envAt 1793577660000 (Latest latest110) True) True sub1
                      (worldStamped, stats0))) = skipped stats0"
proof -
  let ?e = "envAt 1793577660000 (Latest latest110) True"
  have sk: "skipped (snd (checkOnce_body ?e True sub1 (worldStamped, stats0))) = skipped stats0"
    by (rule body_checked) simp
  note a = eligibility_gating[where sub = sub1 and I = 600000 and w = worldStamped
      and ?t0.0 = 1793577600000 and e = ?e and st = stats0 and force = True]
  note b = eligibility_gating[where sub = sub1 and I = 600000 and w = worldSeeded
      and ?t0.0 = 0 and e = ?e and st = stats0 and force = True]
  show ?thesis
    using a b sk
    by (simp add: ex_defs worldStamped_def)
qed

section \<open>Commands on a channel\<close>

lemma disabled_groups_not_enumerated:
  "c \<noteq> [] \<Longrightarrow> \<forall>g \<in> set gs. g_channelId g = Some c \<longrightarrow> g_enabled g = Some False \<Longrightarrow>
   getConfigSubs_outer cfg (Some c) gs = []"
  by (induction gs) (auto simp add: truthyStr_def)

text \<open>
  C10. When the session has a channel, the user may manage it and every group of the
  channel in the loaded configuration has \<^verbatim>\<open>enabled = false\<close>,
  \<^verbatim>\<open>getConfigSubsOrdered\<close> returns the empty list for the channel, whatever the
  groups store, and \<^verbatim>\<open>notify.check\<close>, forced or not, answers that there are no
  subscriptions: nothing is fetched or sent, and the state cache, the state file and
  the time stamps stay as they are. The process is left as
  \<^verbatim>\<open>loadConfigFromFile\<close> leaves it, unchanged when it had loaded its configuration
  before.
\<close>

theorem disabled_channel_manual_check:
  fixes envs :: "nat \<Rightarrow> env" and session :: session and a :: check_arg and broadcast :: bool
    and w :: world
  defines "w1 \<equiv> loadConfigFromFile w"
    and "r \<equiv> notifyCheck envs session a broadcast w"
  assumes channel: "sessionChannelId session \<noteq> []"
    and allowed: "mayManage session"
    and disabled: "\<forall>g \<in> set (cfg_groups (config w1)).
                     g_channelId g = Some (sessionChannelId session) \<longrightarrow>
                     g_enabled g = Some False"
  shows "getConfigSubsOrdered (config w1) (Some (sessionChannelId session)) = []
     \<and> snd r = NoSubscriptions
     \<and> fst r = w1
     \<and> (configLoaded w \<longrightarrow> fst r = w)
     \<and> fetchLog (fst r) = fetchLog w
     \<and> sendCalls (fst r) = sendCalls w
     \<and> stateCache (fst r) = stateCache w
     \<and> stateFile (fst r) = stateFile w
     \<and> lastCheckMap (fst r) = lastCheckMap w"
proof -
  have empty: "getConfigSubsOrdered (config w1) (Some (sessionChannelId session)) = []"
    using disabled_groups_not_enumerated[OF channel disabled]
    by (simp add: getConfigSubsOrdered_eq getConfigSubs_def)
  have "r = (w1, NoSubscriptions)"
    using channel allowed empty by (simp add: r_def notifyCheck_def w1_def Let_def)
  with empty show ?thesis by (simp add: w1_def loadConfig_frame loadConfig_loaded)
qed


theorem disabled_channel_manual_check_witness:
  "g_subs (hd (cfg_groups (config (loadConfigFromFile worldDisabled)))) = [subUnset, subZero]
   \<and> g_enabled (hd (cfg_groups (config (loadConfigFromFile worldDisabled)))) = Some False
   \<and> notifyCheck envsNew session1 argNone True worldDisabled = (worldDisabled, NoSubscriptions)
   \<and> fetchLog (fst (notifyCheck envsNew session1 argNone True worldDisabled)) = []"
proof -
  have h1: "sessionChannelId session1 \<noteq> []" by (simp add: session1_def)
  have h2: "mayManage session1" by (simp add: session1_def)
  have ld: "loadConfigFromFile worldDisabled = worldDisabled"
    by (simp add: loadConfigFromFile_def worldDisabled_def worldSeeded_def worldEmpty_def)
  have h3: "\<forall>g \<in> set (cfg_groups (config (loadConfigFromFile worldDisabled))).
              g_channelId g = Some (sessionChannelId session1) \<longrightarrow> g_enabled g = Some False"
    by (simp add: ld) (simp add: worldDisabled_def worldSeeded_def worldEmpty_def cfgDisabled_def)
  show ?thesis
    using disabled_channel_manual_check[OF h1 h2 h3,
        where envs = envsNew and a = argNone and broadcast = True]
    by (simp add: ld prod_eq_iff)
      (simp add: worldDisabled_def worldSeeded_def worldEmpty_def cfgDisabled_def)
qed

lemma dropWhile_self: "xs = [] \<or> \<not> P (hd xs) \<Longrightarrow> dropWhile P xs = xs"
  by (cases xs) auto

lemma trim_idem: "trim (trim s) = trim s"
proof -
  let ?A = "dropWhile isWhite s"
  let ?B = "dropWhile isWhite (rev ?A)"
  have A: "?A = rev ?B @ rev (takeWhile isWhite (rev ?A))"
    by (metis rev_append rev_rev_ident takeWhile_dropWhile_id)
  have "rev ?B = [] \<or> \<not> isWhite (hd (rev ?B))"
  proof (cases "rev ?B = []")
    case True
    then show ?thesis by simp
  next
    case False
    then have "hd (rev ?B) = hd ?A" using A by (metis hd_append2)
    moreover have "?A \<noteq> []" using False A by (metis append_is_Nil_conv)
    ultimately show ?thesis using hd_dropWhile[of isWhite s] by simp
  qed
  then have "dropWhile isWhite (rev ?B) = rev ?B" by (rule dropWhile_self)
  then show ?thesis by (simp add: trim_def)
qed

text \<open>
  \<^verbatim>\<open>String(g?.channelId) === String(channelId)\<close>: a group without a channel id is
  the group of the channel named \<^verbatim>\<open>undefined\<close>, and of no other.
\<close>

lemma findGroup_missing_channelId:
  "findGroup c [\<lparr> g_channelId = None, g_enabled = en, g_subs = subs \<rparr>]
     = (if c = str ''undefined'' then Some 0 else None)"
  by auto

lemma findGroup_SomeD:
  "findGroup c gs = Some i \<Longrightarrow> i < length gs \<and> stringOf (g_channelId (gs ! i)) = c"
  by (induction gs arbitrary: i) (auto split: if_splits)

lemma normalizePlatform_platformStr: "normalizePlatform (platformStr p) = Some p"
  by (cases p) (simp_all add: normalizePlatform_def)

lemma uniquePairs_Nil: "uniquePairs []"
  by (simp add: uniquePairs_def)

lemma uniquePairs_append:
  assumes "uniquePairs subs"
    and "\<not> list_ex (\<lambda>s. normalizePlatform (s_platform s) = Some pk \<and> trim (s_projectId s) = pid) subs"
    and "trim pid = pid"
  shows "uniquePairs (subs @ [\<lparr> s_platform = platformStr pk, s_projectId = pid, s_interval = x \<rparr>])"
  using assms
  by (auto simp add: uniquePairs_def subPair_def normalizePlatform_platformStr list_ex_iff)

lemma ensureGroup_found:
  "findGroup c (cfg_groups cfg) = Some i \<Longrightarrow>
   ensureGroup c cfg =
     (i, cfg\<lparr> cfg_groups := (cfg_groups cfg)
            [i := (cfg_groups cfg ! i)
               \<lparr> g_enabled := (case g_enabled (cfg_groups cfg ! i) of
                                 None \<Rightarrow> Some True | Some b \<Rightarrow> Some b) \<rparr>] \<rparr>)"
  by (simp add: ensureGroup_def)

lemma ensureGroup_invariant:
  assumes "ensureGroup c cfg = (i, cfg1)"
    and "\<forall>g \<in> set (cfg_groups cfg). uniquePairs (g_subs g)"
  shows "i < length (cfg_groups cfg1) \<and> (\<forall>g \<in> set (cfg_groups cfg1). uniquePairs (g_subs g))"
proof (cases "findGroup c (cfg_groups cfg)")
  case None
  with assms show ?thesis by (auto simp add: ensureGroup_def uniquePairs_Nil)
next
  case (Some j)
  then have j: "j < length (cfg_groups cfg)" by (simp add: findGroup_SomeD)
  let ?g = "(cfg_groups cfg ! j)\<lparr> g_enabled := (case g_enabled (cfg_groups cfg ! j) of
                                 None \<Rightarrow> Some True | Some b \<Rightarrow> Some b) \<rparr>"
  have eq: "i = j" "cfg1 = cfg\<lparr> cfg_groups := (cfg_groups cfg)[j := ?g] \<rparr>"
    using assms(1) Some by (auto simp add: ensureGroup_found)
  have "uniquePairs (g_subs ?g)" using assms(2) j by simp
  then have "\<forall>g \<in> set ((cfg_groups cfg)[j := ?g]). uniquePairs (g_subs g)"
    using assms(2) set_update_subset_insert[of "cfg_groups cfg" j ?g] by blast
  then show ?thesis using j by (simp add: eq)
qed

lemma saveConfig_config: "config (saveConfigToFile w) = config w"
  by (simp add: saveConfigToFile_def)

lemma notifyAdd_preserves_unique:
  assumes inv: "\<forall>g \<in> set (cfg_groups (config (loadConfigFromFile w))). uniquePairs (g_subs g)"
  shows "\<forall>g \<in> set (cfg_groups (config (fst (notifyAdd session platformArg projectIdArg w)))).
           uniquePairs (g_subs g)"
proof -
  let ?w1 = "loadConfigFromFile w"
  obtain i cfg1 where eg: "ensureGroup (sessionChannelId session) (config ?w1) = (i, cfg1)"
    by (cases "ensureGroup (sessionChannelId session) (config ?w1)")
  note e = ensureGroup_invariant[OF eg inv]
  let ?new = "\<lambda>pk. \<lparr> s_platform = platformStr pk, s_projectId = trim projectIdArg,
      s_interval = Num (mathMax (Fin (60 * 1000))
        (orNum (toNumber (cfg_interval cfg1)) (Fin (30 * 60 * 1000)))) \<rparr>"
  have push: "\<forall>g \<in> set ((cfg_groups cfg1)[i := (cfg_groups cfg1 ! i)
                  \<lparr> g_subs := g_subs (cfg_groups cfg1 ! i) @ [?new pk] \<rparr>]). uniquePairs (g_subs g)"
    if "\<not> list_ex (\<lambda>s. normalizePlatform (s_platform s) = Some pk
                      \<and> trim (s_projectId s) = trim projectIdArg) (g_subs (cfg_groups cfg1 ! i))"
    for pk
  proof -
    have "uniquePairs (g_subs (cfg_groups cfg1 ! i))" using e by simp
    then have "uniquePairs (g_subs (cfg_groups cfg1 ! i) @ [?new pk])"
      using that by (intro uniquePairs_append) (simp_all add: trim_idem)
    then show ?thesis
      using e set_update_subset_insert[of "cfg_groups cfg1" i] by fastforce
  qed
  show ?thesis
    using inv e push
    by (simp add: notifyAdd_def Let_def eg saveConfig_config split: option.splits)
qed

text \<open>
  C6. \<^verbatim>\<open>notify.add\<close> keeps the pairs unique: if in the loaded configuration the
  pairs are distinct within every group, they are so after the command, whatever its
  arguments and its reply. When the command passes its checks and the pair, after
  normalizing the platform and trimming the project id, is already in the list of
  the channel's group, the reply is that the subscription exists already, the
  subscription list of every group is as it was, and nothing is written: the
  configuration file and the log are as \<^verbatim>\<open>loadConfigFromFile\<close> left them, which
  is as they were when the process had loaded its configuration before. Trimming is
  that of \<^verbatim>\<open>String.prototype.trim\<close>, and the group of the channel is the first one
  whose \<^verbatim>\<open>String(g?.channelId)\<close> is the channel id of the session.
\<close>

theorem add_keeps_pairs_unique:
  fixes session :: session and platformArg projectIdArg :: jsstring and w :: world
    and pk :: platform and i :: nat
  defines "w1 \<equiv> loadConfigFromFile w"
    and "r \<equiv> notifyAdd session platformArg projectIdArg w"
  shows "((\<forall>g \<in> set (cfg_groups (config w1)). uniquePairs (g_subs g)) \<longrightarrow>
            (\<forall>g \<in> set (cfg_groups (config (fst r))). uniquePairs (g_subs g)))
     \<and> (sessionChannelId session \<noteq> [] \<longrightarrow> mayManage session \<longrightarrow>
          normalizePlatform platformArg = Some pk \<longrightarrow> trim projectIdArg \<noteq> [] \<longrightarrow>
          findGroup (sessionChannelId session) (cfg_groups (config w1)) = Some i \<longrightarrow>
          list_ex (\<lambda>s. normalizePlatform (s_platform s) = Some pk
                        \<and> trim (s_projectId s) = trim projectIdArg)
                  (g_subs (cfg_groups (config w1) ! i)) \<longrightarrow>
          snd r = AlreadyExists pk (trim projectIdArg)
          \<and> map g_subs (cfg_groups (config (fst r))) = map g_subs (cfg_groups (config w1))
          \<and> configFile (fst r) = configFile w1
          \<and> stateFile (fst r) = stateFile w
          \<and> warnLog (fst r) = warnLog w1
          \<and> (configLoaded w \<longrightarrow>
               map g_subs (cfg_groups (config (fst r))) = map g_subs (cfg_groups (config w))
               \<and> configFile (fst r) = configFile w \<and> warnLog (fst r) = warnLog w))"
proof -
  have p1: "(\<forall>g \<in> set (cfg_groups (config w1)). uniquePairs (g_subs g)) \<longrightarrow>
            (\<forall>g \<in> set (cfg_groups (config (fst r))). uniquePairs (g_subs g))"
    unfolding w1_def r_def by (intro impI notifyAdd_preserves_unique)
  have p2: "snd r = AlreadyExists pk (trim projectIdArg)
          \<and> map g_subs (cfg_groups (config (fst r))) = map g_subs (cfg_groups (config w1))
          \<and> configFile (fst r) = configFile w1
          \<and> stateFile (fst r) = stateFile w
          \<and> warnLog (fst r) = warnLog w1
          \<and> (configLoaded w \<longrightarrow>
               map g_subs (cfg_groups (config (fst r))) = map g_subs (cfg_groups (config w))
               \<and> configFile (fst r) = configFile w \<and> warnLog (fst r) = warnLog w)"
    if ch: "sessionChannelId session \<noteq> []" and ok: "mayManage session"
      and pf: "normalizePlatform platformArg = Some pk" and pid: "trim projectIdArg \<noteq> []"
      and fg: "findGroup (sessionChannelId session) (cfg_groups (config w1)) = Some i"
      and ex: "list_ex (\<lambda>s. normalizePlatform (s_platform s) = Some pk
                        \<and> trim (s_projectId s) = trim projectIdArg)
                  (g_subs (cfg_groups (config w1) ! i))"
  proof -
    let ?gs = "cfg_groups (config w1)"
    let ?g = "(?gs ! i)\<lparr> g_enabled := (case g_enabled (?gs ! i) of
                                 None \<Rightarrow> Some True | Some b \<Rightarrow> Some b) \<rparr>"
    have i: "i < length ?gs" using fg by (simp add: findGroup_SomeD)
    have args: "platformArg \<noteq> []" "projectIdArg \<noteq> []"
      using pf pid by (auto simp add: normalizePlatform_def trim_def)
    have eg: "ensureGroup (sessionChannelId session) (config w1)
                = (i, (config w1)\<lparr> cfg_groups := ?gs[i := ?g] \<rparr>)"
      using fg by (rule ensureGroup_found)
    have r: "r = (w1\<lparr> config := (config w1)\<lparr> cfg_groups := ?gs[i := ?g] \<rparr> \<rparr>,
                  AlreadyExists pk (trim projectIdArg))"
      using ch ok pf pid args ex i
      by (simp add: r_def notifyAdd_def Let_def w1_def[symmetric] eg)
    have "map g_subs (?gs[i := ?g]) = map g_subs ?gs"
      using i by (simp add: map_update list_update_same_conv)
    then show ?thesis
      by (simp add: r) (simp add: w1_def loadConfig_frame loadConfig_loaded)
  qed
  from p1 p2 show ?thesis by blast
qed


theorem add_keeps_pairs_unique_witness:
  "list_all (\<lambda>g. uniquePairs (g_subs g)) (cfg_groups (config (loadConfigFromFile worldSeeded)))
   \<and> findGroup (str ''c1'') (cfg_groups (config (loadConfigFromFile worldSeeded))) = Some 0
   \<and> snd (notifyAdd session1 (str ''mr'') idSpaced worldSeeded) = AlreadyExists MR (str ''abc123'')
   \<and> map g_subs (cfg_groups (config (fst (notifyAdd session1 (str ''mr'') idSpaced worldSeeded))))
       = [[subUnset, subZero]]
   \<and> configFile (fst (notifyAdd session1 (str ''mr'') idSpaced worldSeeded)) = Unreadable
   \<and> list_all (\<lambda>g. uniquePairs (g_subs g))
        (cfg_groups (config (fst (notifyAdd session1 (str ''cf'') (str ''99'') worldSeeded))))"
proof -
  have ld: "loadConfigFromFile worldSeeded = worldSeeded"
    by (simp add: loadConfigFromFile_def worldSeeded_def worldEmpty_def)
  have gs: "cfg_groups (config worldSeeded)
              = [\<lparr> g_channelId = Some (str ''c1''), g_enabled = Some True,
                   g_subs = [subUnset, subZero] \<rparr>]"
    by (simp add: worldSeeded_def worldEmpty_def cfgTwo_def)
  note tr = trim_spaced
  have u: "uniquePairs [subUnset, subZero]"
    by (simp add: uniquePairs_def subPair_def subUnset_def subZero_def normalizePlatform_def)
  have h0: "\<forall>g \<in> set (cfg_groups (config (loadConfigFromFile worldSeeded))).
              uniquePairs (g_subs g)"
    by (simp add: ld gs u)
  have h1: "sessionChannelId session1 \<noteq> []" by (simp add: session1_def)
  have h2: "mayManage session1" by (simp add: session1_def)
  have h3: "normalizePlatform (str ''mr'') = Some MR" by (simp add: normalizePlatform_def)
  have h4: "trim idSpaced \<noteq> []" by (simp add: tr)
  have h5: "findGroup (sessionChannelId session1)
              (cfg_groups (config (loadConfigFromFile worldSeeded))) = Some 0"
    by (simp add: ld gs session1_def)
  have h6: "list_ex (\<lambda>s. normalizePlatform (s_platform s) = Some MR
                        \<and> trim (s_projectId s) = trim idSpaced)
              (g_subs (cfg_groups (config (loadConfigFromFile worldSeeded)) ! 0))"
    by (simp add: ld gs tr subUnset_def normalizePlatform_def trim_examples)
  note dup = add_keeps_pairs_unique[where session = session1 and platformArg = "str ''mr''"
      and projectIdArg = idSpaced and w = worldSeeded and pk = MR and i = 0,
      THEN conjunct2, THEN mp, OF h1, THEN mp, OF h2, THEN mp, OF h3, THEN mp, OF h4,
      THEN mp, OF h5, THEN mp, OF h6]
  note inv = add_keeps_pairs_unique[where session = session1 and platformArg = "str ''cf''"
      and projectIdArg = "str ''99''" and w = worldSeeded and pk = CF and i = 0,
      THEN conjunct1, THEN mp, OF h0]
  have inv': "list_all (\<lambda>g. uniquePairs (g_subs g))
        (cfg_groups (config (fst (notifyAdd session1 (str ''cf'') (str ''99'') worldSeeded))))"
    using inv by (simp add: list_all_iff)
  show ?thesis
    using dup inv' h5
    by (simp add: ld gs tr u session1_def)
      (simp add: worldSeeded_def worldEmpty_def)
qed

text \<open>
  A project id of white space only is refused as empty (line 541), and the new pair
  \<^verbatim>\<open>cf:99\<close> is added at the end of the list of the channel and written out.
\<close>

lemma notifyAdd_examples:
  "snd (notifyAdd session1 (str ''mr'') idWhite worldSeeded) = EmptyProjectId"
  "snd (notifyAdd session1 (str ''cf'') (str ''99'') worldSeeded) = Added CF (str ''99'')"
  "map (map subPair \<circ> g_subs)
     (cfg_groups (config (fst (notifyAdd session1 (str ''cf'') (str ''99'') worldSeeded))))
   = [[(Some MR, str ''abc123''), (Some CF, str ''42''), (Some CF, str ''99'')]]"
  by (simp_all add: notifyAdd_def Let_def normalizePlatform_def session1_def trim_only_white
      trim_examples loadConfigFromFile_def saveConfigToFile_def
      ensureGroup_def worldSeeded_def worldEmpty_def cfgTwo_def subUnset_def subZero_def
      subPair_def)

section \<open>Persistence\<close>

lemma jsonNum_finite:
  "n \<noteq> Num NaN \<Longrightarrow> n \<noteq> Num PosInf \<Longrightarrow> n \<noteq> Num NegInf \<Longrightarrow> jsonNum n = n"
  by (cases n rule: jsonNum.cases) simp_all

lemma jsonGroups_finite:
  assumes "\<forall>g \<in> set gs. \<forall>s \<in> set (g_subs g).
             s_interval s \<noteq> Num NaN \<and> s_interval s \<noteq> Num PosInf \<and> s_interval s \<noteq> Num NegInf"
  shows "map jsonGroup gs = gs"
proof -
  have sub: "jsonSub s = s"
    if "s_interval s \<noteq> Num NaN \<and> s_interval s \<noteq> Num PosInf \<and> s_interval s \<noteq> Num NegInf" for s
    using that by (simp add: jsonSub_def jsonNum_finite)
  have "jsonGroup g = g" if "g \<in> set gs" for g
  proof -
    have "map jsonSub (g_subs g) = g_subs g"
      using assms that by (intro map_idI sub) blast
    then show ?thesis by (simp add: jsonGroup_def)
  qed
  then show ?thesis by (intro map_idI)
qed

lemma config_roundtrip:
  assumes "configWritable w"
  shows "config (loadConfigFromFile (restart cfg0 (saveConfigToFile w)))
           = cfg0\<lparr> cfg_enabled := Some (truthyFlag (cfg_enabled (config w))),
                   cfg_groups := map jsonGroup (cfg_groups (config w)) \<rparr>"
  using assms by (simp add: loadConfigFromFile_def restart_def saveConfigToFile_def)

lemma state_roundtrip:
  assumes "stateWritable w" "\<not> saving w"
  shows "stateCache (loadStateFromFile (restart cfg0 (saveStateToFile w))) = stateCache w"
proof
  fix key
  show "stateCache (loadStateFromFile (restart cfg0 (saveStateToFile w))) key = stateCache w key"
    using assms
    by (simp add: loadStateFromFile_def restart_def saveStateToFile_def loadEntries_def
        cacheObject_def split: option.splits)
qed

text \<open>
  C8, as the claim states it, fails for the configuration store in two places.
  \<^verbatim>\<open>saveConfigToFile\<close> writes \<^verbatim>\<open>!!config.enabled\<close>, so a master switch that is
  unset in memory is \<^verbatim>\<open>false\<close> after the reload. And \<^verbatim>\<open>JSON.stringify\<close> writes
  a number that is not finite as \<^verbatim>\<open>null\<close>: a stored interval \<^verbatim>\<open>Infinity\<close> comes
  back as \<^verbatim>\<open>null\<close>, which \<^verbatim>\<open>Number\<close> reads as \<^verbatim>\<open>0\<close>, and the subscription that
  was enumerated before the restart is dropped after it.
\<close>

theorem persistence_roundtrip_counterexample:
  "cfg_enabled (config worldUnset) = None
   \<and> cfg_enabled (config (loadConfigFromFile (restart cfgUnset (saveConfigToFile worldUnset))))
       = Some False
   \<and> getConfigSubs (config worldInf) None
       = [\<lparr> channelId = (str ''c1''), platform = MR, projectId = (str ''abc123''), interval = PosInf \<rparr>]
   \<and> getConfigSubs (config (loadConfigFromFile (restart cfgInf (saveConfigToFile worldInf))))
        None = []"
  by (simp add: loadConfigFromFile_def restart_def saveConfigToFile_def worldUnset_def
      worldInf_def worldEmpty_def cfgUnset_def cfgInf_def cfgTwo_def truthyFlag_def
      getConfigSubs_def jsonGroup_def jsonSub_def normalizePlatform_def trim_examples truthyStr_def
      orNum_def)


text \<open>
  C8, amended. When the write succeeds, a fresh process that loads the configuration
  file finds the master switch as the boolean \<^verbatim>\<open>!!enabled\<close> of the saved one (a
  boolean comes back as it was, an unset switch as \<^verbatim>\<open>false\<close>) and the groups as
  \<^verbatim>\<open>JSON\<close> holds them; they are the saved groups when no stored interval is
  \<^verbatim>\<open>NaN\<close> or infinite. When the write succeeds and no save is in flight, a fresh
  process that loads the state file has the saved map from keys to
  \<^verbatim>\<open>lastVersion\<close>. The configuration the fresh process starts with does not matter.
\<close>

theorem persistence_roundtrip:
  fixes w :: world and cfg0 :: notify_config
  defines "c \<equiv> config (loadConfigFromFile (restart cfg0 (saveConfigToFile w)))"
  shows "(configWritable w \<longrightarrow>
            cfg_enabled c = Some (truthyFlag (cfg_enabled (config w)))
            \<and> truthyFlag (cfg_enabled c) = truthyFlag (cfg_enabled (config w))
            \<and> cfg_groups c = map jsonGroup (cfg_groups (config w)))
     \<and> (configWritable w \<longrightarrow>
          (\<forall>g \<in> set (cfg_groups (config w)). \<forall>s \<in> set (g_subs g).
              s_interval s \<noteq> Num NaN \<and> s_interval s \<noteq> Num PosInf \<and> s_interval s \<noteq> Num NegInf) \<longrightarrow>
          cfg_groups c = cfg_groups (config w))
     \<and> (stateWritable w \<longrightarrow> \<not> saving w \<longrightarrow>
          stateCache (loadStateFromFile (restart cfg0 (saveStateToFile w))) = stateCache w)"
  unfolding c_def
  by (auto simp add: config_roundtrip state_roundtrip jsonGroups_finite truthyFlag_def)


theorem persistence_roundtrip_witness:
  "configWritable worldSeeded \<and> stateWritable worldSeeded \<and> \<not> saving worldSeeded
   \<and> cfg_enabled (config (loadConfigFromFile (restart cfgUnset (saveConfigToFile worldSeeded))))
       = cfg_enabled (config worldSeeded)
   \<and> cfg_groups (config (loadConfigFromFile (restart cfgUnset (saveConfigToFile worldSeeded))))
       = cfg_groups (config worldSeeded)
   \<and> stateCache (loadStateFromFile (restart cfgUnset (saveStateToFile worldSeeded)))
       = stateCache worldSeeded
   \<and> stateCache worldSeeded key1 = Some \<lparr> lastVersion = Some (str ''1.0.0'') \<rparr>"
proof -
  have h1: "configWritable worldSeeded" "stateWritable worldSeeded" "\<not> saving worldSeeded"
    by (simp_all add: worldSeeded_def worldEmpty_def)
  have h2: "\<forall>g \<in> set (cfg_groups (config worldSeeded)). \<forall>s \<in> set (g_subs g).
              s_interval s \<noteq> Num NaN \<and> s_interval s \<noteq> Num PosInf \<and> s_interval s \<noteq> Num NegInf"
    by (simp add: worldSeeded_def worldEmpty_def cfgTwo_def subUnset_def subZero_def)
  have en: "cfg_enabled (config worldSeeded) = Some True"
    by (simp add: worldSeeded_def worldEmpty_def cfgTwo_def)
  note t = persistence_roundtrip[where w = worldSeeded and ?cfg0.0 = cfgUnset]
  show ?thesis
    using t[THEN conjunct1, THEN mp, OF h1(1)]
      t[THEN conjunct2, THEN conjunct1, THEN mp, OF h1(1), THEN mp, OF h2]
      t[THEN conjunct2, THEN conjunct2, THEN mp, OF h1(2), THEN mp, OF h1(3)] h1
    by (simp add: en truthyFlag_def) (simp add: worldSeeded_def worldEmpty_def)
qed

end
